theory Spec2Isabelle
  imports Complex_Main "HOL-Library.Sublist"
begin

section \<open>Strings and error classification\<close>

text \<open>
  JavaScript's \<^verbatim>\<open>String.prototype.includes\<close>: \<open>str_includes s t\<close> holds when \<open>t\<close>
  occurs in \<open>s\<close> as a contiguous run of characters. Every token the proxy searches for
  is ASCII, so matching on the bytes of the message finds the same occurrences as
  matching on its UTF-16 code units.
\<close>

fun str_includes :: "string \<Rightarrow> string \<Rightarrow> bool" where
  "str_includes [] t = (t = [])"
| "str_includes (c # s) t = (prefix t (c # s) \<or> str_includes s t)"

text \<open>
  The test of \<^verbatim>\<open>mcp-proxy.ts\<close> (unnamed/part_003) for a connection error, written out
  identically at lines 200-203 (retry wrapper), 304-307 (tools/list) and 495-498
  (tools/call).
\<close>

definition isConnectionError :: "string \<Rightarrow> bool" where
  "isConnectionError errorMessage =
     (str_includes errorMessage ''Connection'' \<or>
      str_includes errorMessage ''timeout'' \<or>
      str_includes errorMessage ''ECONNREFUSED'' \<or>
      str_includes errorMessage ''ENOTFOUND'')"

text \<open>Lines 196-199 and 483 of unnamed/part_003.\<close>

definition isToolNotFound :: "string \<Rightarrow> bool" where
  "isToolNotFound errorMessage =
     (str_includes errorMessage ''Tool'' \<and> str_includes errorMessage ''not found'')"

definition isInvalidParams :: "string \<Rightarrow> bool" where
  "isInvalidParams errorMessage = str_includes errorMessage ''Invalid parameters''"

definition isRobotsTxtError :: "string \<Rightarrow> bool" where
  "isRobotsTxtError errorMessage =
     (str_includes errorMessage ''robots.txt'' \<or> str_includes errorMessage ''robots'')"

definition isBusinessError :: "string \<Rightarrow> bool" where
  "isBusinessError errorMessage =
     (isToolNotFound errorMessage \<or> isInvalidParams errorMessage \<or> isRobotsTxtError errorMessage)"

section \<open>Metrics Store\<close>

text \<open>
  \<^verbatim>\<open>MCPServerMetrics\<close> and \<^verbatim>\<open>MCPQualityScore\<close> of \<^verbatim>\<open>types.ts\<close> (unnamed/part_000).
  JavaScript numbers are modelled by their ideal values: the counters, which start at
  0 and are only ever incremented, are natural numbers; rates, times and scores are
  reals; a \<^verbatim>\<open>Date\<close> is its number of milliseconds. The clock is an argument \<open>now\<close>
  of every operation that reads it; the reads of one synchronous call return the same
  instant.
\<close>

record MCPServerMetrics =
  serverName :: string
  responseTime :: real
  successRate :: real
  errorCount :: nat
  totalRequests :: nat
  lastUsed :: int
  isHealthy :: bool
  loadFactor :: real
  capabilityScore :: real

record MCPQualityScore =
  qs_serverName :: string
  overallScore :: real
  performanceScore :: real
  reliabilityScore :: real
  qs_capabilityScore :: real
  loadScore :: real
  lastUpdated :: int

text \<open>The two \<^verbatim>\<open>Map\<close>s of the class \<^verbatim>\<open>MetricsManager\<close>.\<close>

record MetricsManager =
  metrics :: "string \<rightharpoonup> MCPServerMetrics"
  qualityScores :: "string \<rightharpoonup> MCPQualityScore"

definition newMetricsManager :: MetricsManager where
  "newMetricsManager = \<lparr>metrics = Map.empty, qualityScores = Map.empty\<rparr>"

definition calculatePerformanceScore :: "MCPServerMetrics \<Rightarrow> real" where
  "calculatePerformanceScore m = max 0 (1 - responseTime m / 5000)"

definition calculateReliabilityScore :: "MCPServerMetrics \<Rightarrow> real" where
  "calculateReliabilityScore m = (if \<not> isHealthy m then 0 else successRate m)"

definition calculateLoadScore :: "MCPServerMetrics \<Rightarrow> real" where
  "calculateLoadScore m = 1 - loadFactor m"

definition updateQualityScore :: "MetricsManager \<Rightarrow> string \<Rightarrow> int \<Rightarrow> MetricsManager" where
  "updateQualityScore mm name now =
     (case metrics mm name of
        None \<Rightarrow> mm
      | Some m \<Rightarrow>
          let perf = calculatePerformanceScore m;
              rel = calculateReliabilityScore m;
              load = calculateLoadScore m;
              qualityScore = \<lparr>qs_serverName = name, overallScore = 0,
                 performanceScore = perf, reliabilityScore = rel,
                 qs_capabilityScore = capabilityScore m, loadScore = load,
                 lastUpdated = now\<rparr>;
              qualityScore = qualityScore\<lparr>overallScore :=
                 perf * 0.3 + rel * 0.3 + capabilityScore m * 0.2 + load * 0.2\<rparr>
          in mm\<lparr>qualityScores := (qualityScores mm)(name \<mapsto> qualityScore)\<rparr>)"

definition initializeServer :: "MetricsManager \<Rightarrow> string \<Rightarrow> int \<Rightarrow> MetricsManager" where
  "initializeServer mm name now =
     (let initialMetrics = \<lparr>serverName = name, responseTime = 0, successRate = 1,
            errorCount = 0, totalRequests = 0, lastUsed = now, isHealthy = True,
            loadFactor = 0, capabilityScore = 1\<rparr>
      in updateQualityScore (mm\<lparr>metrics := (metrics mm)(name \<mapsto> initialMetrics)\<rparr>) name now)"

text \<open>
  The load factor of \<^verbatim>\<open>recordRequest\<close> in unnamed/part_005, lines 65-99. The quotient
  \<^verbatim>\<open>totalRequests / (timeSinceLastRequest / timeWindow)\<close> is a float division: with
  no time elapsed and a positive request count it is \<^verbatim>\<open>Infinity\<close>, which
  \<^verbatim>\<open>Math.min(1, _)\<close> turns into 1; HOL's \<open>x / 0 = 0\<close> would give 0, so the case is
  written out.
\<close>

definition updateLoadFactor :: "MCPServerMetrics \<Rightarrow> int \<Rightarrow> MCPServerMetrics" where
  "updateLoadFactor m now =
     (if totalRequests m = 0 then m\<lparr>loadFactor := 0\<rparr>
      else
        let timeSinceLastRequest = now - lastUsed m in
        if timeSinceLastRequest < 60000 then
          let newLoadFactor =
                (if timeSinceLastRequest = 0 then 1
                 else min 1 ((real (totalRequests m) / (real_of_int timeSinceLastRequest / 60000)) / 100))
          in if totalRequests m = 1 then m\<lparr>loadFactor := newLoadFactor\<rparr>
             else m\<lparr>loadFactor := 0.7 * newLoadFactor + (1 - 0.7) * loadFactor m\<rparr>
        else m\<lparr>loadFactor := max 0 (loadFactor m * 0.9)\<rparr>)"

text \<open>
  \<^verbatim>\<open>MetricsManager.recordRequest\<close> of unnamed/part_005 (lines 31-106). A missing
  record is initialised and the sample is then incorporated into it. \<open>recordSample\<close>
  is what lines 42-102 do to the record.
\<close>

definition recordSample :: "MCPServerMetrics \<Rightarrow> real \<Rightarrow> bool \<Rightarrow> int \<Rightarrow> MCPServerMetrics" where
  "recordSample m rt success now =
     (let m = m\<lparr>totalRequests := totalRequests m + 1\<rparr>;
          m = (if totalRequests m = 1 then m\<lparr>responseTime := rt\<rparr>
               else m\<lparr>responseTime := 0.3 * rt + (1 - 0.3) * responseTime m\<rparr>);
          m = (if \<not> success then m\<lparr>errorCount := errorCount m + 1\<rparr> else m);
          m = m\<lparr>successRate := 1 - real (errorCount m) / real (totalRequests m)\<rparr>;
          m = updateLoadFactor m now
      in m\<lparr>lastUsed := now\<rparr>)"

definition recordRequest :: "MetricsManager \<Rightarrow> string \<Rightarrow> real \<Rightarrow> bool \<Rightarrow> int \<Rightarrow> MetricsManager" where
  "recordRequest mm name rt success now =
     (let mm = (case metrics mm name of None \<Rightarrow> initializeServer mm name now | Some _ \<Rightarrow> mm) in
      case metrics mm name of
        None \<Rightarrow> mm
      | Some m \<Rightarrow>
          updateQualityScore
            (mm\<lparr>metrics := (metrics mm)(name \<mapsto> recordSample m rt success now)\<rparr>) name now)"

text \<open>
  \<^verbatim>\<open>MetricsManager.recordRequest\<close> of src/metrics-manager.ts (lines 31-58). A missing
  record is initialised and the call returns at once. \<open>recordSample_src\<close> is what
  lines 38-54 do to the record; the time since the last request is read after
  \<^verbatim>\<open>lastUsed\<close> has been set.
\<close>

definition recordSample_src :: "MCPServerMetrics \<Rightarrow> real \<Rightarrow> bool \<Rightarrow> int \<Rightarrow> MCPServerMetrics" where
  "recordSample_src m rt success now =
     (let m = m\<lparr>responseTime := 0.1 * rt + (1 - 0.1) * responseTime m\<rparr>;
          m = m\<lparr>totalRequests := totalRequests m + 1\<rparr>;
          m = (if \<not> success then m\<lparr>errorCount := errorCount m + 1\<rparr> else m);
          m = m\<lparr>successRate := 1 - real (errorCount m) / real (totalRequests m)\<rparr>;
          m = m\<lparr>lastUsed := now\<rparr>;
          timeSinceLastRequest = now - lastUsed m
      in m\<lparr>loadFactor :=
            min 1 (real (totalRequests m) / max 1 (real_of_int timeSinceLastRequest / 1000))\<rparr>)"

definition recordRequest_src :: "MetricsManager \<Rightarrow> string \<Rightarrow> real \<Rightarrow> bool \<Rightarrow> int \<Rightarrow> MetricsManager" where
  "recordRequest_src mm name rt success now =
     (case metrics mm name of
        None \<Rightarrow> initializeServer mm name now
      | Some m \<Rightarrow>
          updateQualityScore
            (mm\<lparr>metrics := (metrics mm)(name \<mapsto> recordSample_src m rt success now)\<rparr>) name now)"

text \<open>
  \<^verbatim>\<open>markServerUnhealthy\<close>, \<^verbatim>\<open>markServerHealthy\<close> and \<^verbatim>\<open>updateCapabilityScore\<close>, the
  same in both files. The error message of \<^verbatim>\<open>markServerUnhealthy\<close> is not used.
\<close>

definition markServerUnhealthy :: "MetricsManager \<Rightarrow> string \<Rightarrow> string option \<Rightarrow> int \<Rightarrow> MetricsManager" where
  "markServerUnhealthy mm name errorMessage now =
     (case metrics mm name of
        None \<Rightarrow> mm
      | Some m \<Rightarrow>
          updateQualityScore (mm\<lparr>metrics := (metrics mm)(name \<mapsto> m\<lparr>isHealthy := False\<rparr>)\<rparr>) name now)"

definition markServerHealthy :: "MetricsManager \<Rightarrow> string \<Rightarrow> int \<Rightarrow> MetricsManager" where
  "markServerHealthy mm name now =
     (case metrics mm name of
        None \<Rightarrow> mm
      | Some m \<Rightarrow>
          updateQualityScore (mm\<lparr>metrics := (metrics mm)(name \<mapsto> m\<lparr>isHealthy := True\<rparr>)\<rparr>) name now)"

definition updateCapabilityScore :: "MetricsManager \<Rightarrow> string \<Rightarrow> real \<Rightarrow> int \<Rightarrow> MetricsManager" where
  "updateCapabilityScore mm name score now =
     (case metrics mm name of
        None \<Rightarrow> mm
      | Some m \<Rightarrow>
          updateQualityScore
            (mm\<lparr>metrics := (metrics mm)(name \<mapsto> m\<lparr>capabilityScore := max 0 (min 1 score)\<rparr>)\<rparr>) name now)"

text \<open>
  \<^verbatim>\<open>cleanupOldData\<close>: a record unused for more than 24 hours is deleted together with
  its quality score.
\<close>

definition expired :: "int \<Rightarrow> MCPServerMetrics \<Rightarrow> bool" where
  "expired now m = (now - lastUsed m > 24 * 60 * 60 * 1000)"

definition cleanupOldData :: "MetricsManager \<Rightarrow> int \<Rightarrow> MetricsManager" where
  "cleanupOldData mm now =
     \<lparr>metrics = (\<lambda>n. case metrics mm n of
                       None \<Rightarrow> None
                     | Some m \<Rightarrow> if expired now m then None else Some m),
      qualityScores = (\<lambda>n. case metrics mm n of
                       None \<Rightarrow> qualityScores mm n
                     | Some m \<Rightarrow> if expired now m then None else qualityScores mm n)\<rparr>"

text \<open>
  The public interface of the class as a type of calls, each with the instant it is
  made at, and the store reached from a new \<^verbatim>\<open>MetricsManager\<close> by a sequence of
  calls. The flag chooses the \<^verbatim>\<open>recordRequest\<close> of unnamed/part_005 (\<open>True\<close>) or of
  src/metrics-manager.ts (\<open>False\<close>).
\<close>

datatype mm_call =
    InitializeServer string
  | RecordRequest string real bool
  | MarkServerUnhealthy string "string option"
  | MarkServerHealthy string
  | UpdateCapabilityScore string real
  | CleanupOldData

fun mm_apply :: "bool \<Rightarrow> MetricsManager \<Rightarrow> mm_call \<times> int \<Rightarrow> MetricsManager" where
  "mm_apply v mm (InitializeServer name, now) = initializeServer mm name now"
| "mm_apply v mm (RecordRequest name rt success, now) =
     (if v then recordRequest mm name rt success now else recordRequest_src mm name rt success now)"
| "mm_apply v mm (MarkServerUnhealthy name msg, now) = markServerUnhealthy mm name msg now"
| "mm_apply v mm (MarkServerHealthy name, now) = markServerHealthy mm name now"
| "mm_apply v mm (UpdateCapabilityScore name score, now) = updateCapabilityScore mm name score now"
| "mm_apply v mm (CleanupOldData, now) = cleanupOldData mm now"

definition mm_run :: "bool \<Rightarrow> (mm_call \<times> int) list \<Rightarrow> MetricsManager" where
  "mm_run v calls = foldl (mm_apply v) newMetricsManager calls"

text \<open>
  The quality score \<^verbatim>\<open>updateQualityScore\<close> stores for a record, as one value.
\<close>

definition scoreOf :: "string \<Rightarrow> MCPServerMetrics \<Rightarrow> int \<Rightarrow> MCPQualityScore" where
  "scoreOf name m now =
     \<lparr>qs_serverName = name,
      overallScore = calculatePerformanceScore m * 0.3 + calculateReliabilityScore m * 0.3 +
                     capabilityScore m * 0.2 + calculateLoadScore m * 0.2,
      performanceScore = calculatePerformanceScore m,
      reliabilityScore = calculateReliabilityScore m,
      qs_capabilityScore = capabilityScore m,
      loadScore = calculateLoadScore m,
      lastUpdated = now\<rparr>"

text \<open>Two invariants of the store: every record has its score, and no record has more errors than requests.\<close>

definition scores_ok :: "MetricsManager \<Rightarrow> bool" where
  "scores_ok mm = (\<forall>n m. metrics mm n = Some m \<longrightarrow> (\<exists>t. qualityScores mm n = Some (scoreOf n m t)))"

definition counts_ok :: "MetricsManager \<Rightarrow> bool" where
  "counts_ok mm = (\<forall>n m. metrics mm n = Some m \<longrightarrow> errorCount m \<le> totalRequests m)"

section \<open>Upstream clients and the Health Monitor\<close>

text \<open>
  \<^verbatim>\<open>ConnectedClient\<close> of src/client.ts, without the RPC channel and the cleanup closure.
  The field \<^verbatim>\<open>name\<close> is \<open>clientName\<close> here. \<^verbatim>\<open>lastError\<close> is optional: \<open>None\<close> is
  \<^verbatim>\<open>undefined\<close>.
\<close>

record ConnectedClient =
  clientName :: string
  isConnected :: bool
  lastError :: "string option"
  lastErrorLogged :: bool

text \<open>\<^verbatim>\<open>MCPHealthCheck\<close> of \<^verbatim>\<open>types.ts\<close>; its fields \<^verbatim>\<open>serverName\<close>, \<^verbatim>\<open>isHealthy\<close>,
  \<^verbatim>\<open>errorMessage\<close> and \<^verbatim>\<open>responseTime\<close> carry the prefix \<open>hc_\<close>.\<close>

record MCPHealthCheck =
  hc_serverName :: string
  hc_isHealthy :: bool
  lastCheck :: int
  hc_errorMessage :: "string option"
  hc_responseTime :: "int option"

text \<open>
  What the proxy does that is not a change of its own data: an invocation of the
  operation by the retry wrapper (upstream name, attempt number), an awaited back-off
  timer (milliseconds), and the calls of \<^verbatim>\<open>markServerUnhealthy\<close> and
  \<^verbatim>\<open>markServerHealthy\<close> on the Metrics Store.
\<close>

datatype effect =
    Attempt string nat
  | Backoff nat
  | MarkUnhealthy string
  | MarkHealthy string

text \<open>
  The state shared by the handlers of \<^verbatim>\<open>createServer\<close> (unnamed/part_003) and the
  \<^verbatim>\<open>HealthMonitor\<close> (unnamed/part_002). Client objects are shared and mutated through
  references: \<open>clientObjs\<close> is the store of the objects, a reference is a number, and
  the array \<^verbatim>\<open>connectedClients\<close> and the three routing tables hold references.
  \<open>clock\<close> is the current time in milliseconds and \<open>effects\<close> the log of effects, oldest
  first.
\<close>

record proxy =
  clientObjs :: "nat \<Rightarrow> ConnectedClient"
  connectedClients :: "nat list"
  metricsManager :: MetricsManager
  healthChecks :: "string \<rightharpoonup> MCPHealthCheck"
  toolToClientMap :: "string \<rightharpoonup> nat"
  resourceToClientMap :: "string \<rightharpoonup> nat"
  promptToClientMap :: "string \<rightharpoonup> nat"
  failureCounts :: "string \<rightharpoonup> nat"
  clock :: int
  effects :: "effect list"

text \<open>A JavaScript string used as a condition is true when it is defined and not empty.\<close>

definition truthy :: "string option \<Rightarrow> bool" where
  "truthy e = (case e of None \<Rightarrow> False | Some m \<Rightarrow> m \<noteq> [])"

text \<open>\<^verbatim>\<open>e || d\<close> on an optional string.\<close>

definition orElse :: "string option \<Rightarrow> string \<Rightarrow> string" where
  "orElse e d = (case e of None \<Rightarrow> d | Some m \<Rightarrow> if m = [] then d else m)"

text \<open>The calls of the Health Monitor and of the proxy on the Metrics Store.\<close>

definition markUnhealthy :: "string \<Rightarrow> string option \<Rightarrow> proxy \<Rightarrow> proxy" where
  "markUnhealthy n e s =
     s\<lparr>metricsManager := markServerUnhealthy (metricsManager s) n e (clock s),
       effects := effects s @ [MarkUnhealthy n]\<rparr>"

definition markHealthy :: "string \<Rightarrow> proxy \<Rightarrow> proxy" where
  "markHealthy n s =
     s\<lparr>metricsManager := markServerHealthy (metricsManager s) n (clock s),
       effects := effects s @ [MarkHealthy n]\<rparr>"

text \<open>
  \<^verbatim>\<open>HealthMonitor.startMonitoring\<close> (unnamed/part_002, lines 322-338), without the
  timer it starts.
\<close>

definition startMonitoring :: "proxy \<Rightarrow> proxy" where
  "startMonitoring s =
     foldl (\<lambda>s r. s\<lparr>healthChecks := (healthChecks s)(clientName (clientObjs s r) \<mapsto>
                \<lparr>hc_serverName = clientName (clientObjs s r), hc_isHealthy = True,
                 lastCheck = clock s, hc_errorMessage = None, hc_responseTime = None\<rparr>)\<rparr>)
       s (connectedClients s)"

text \<open>
  The decision of \<^verbatim>\<open>checkServerHealth\<close> (lines 371-403): health and error message. The
  \<^verbatim>\<open>try\<close> block only reads fields of the client, so its \<^verbatim>\<open>catch\<close> branches are never
  entered.
\<close>

definition checkDecision :: "ConnectedClient \<Rightarrow> bool \<times> string option" where
  "checkDecision client =
     (if \<not> isConnected client then (False, Some (orElse (lastError client) ''Connection lost''))
      else if clientName client = ''Example Server 3'' then
        (if truthy (lastError client) then (False, lastError client) else (True, None))
      else (True, None))"

text \<open>The decision of \<^verbatim>\<open>triggerHealthCheck\<close> (lines 452-467).\<close>

definition triggerDecision :: "ConnectedClient \<Rightarrow> bool \<times> string option" where
  "triggerDecision client =
     (if \<not> isConnected client then (False, Some (orElse (lastError client) ''Connection lost''))
      else (True, None))"

text \<open>
  Lines 414-443 and 469-489: the record written to \<^verbatim>\<open>healthChecks\<close> and the update of
  the Metrics Store. The response time is the difference of two clock reads of the same
  synchronous call.
\<close>

definition writeHealthCheck :: "nat \<Rightarrow> bool \<times> string option \<Rightarrow> proxy \<Rightarrow> MCPHealthCheck \<times> proxy" where
  "writeHealthCheck r decision s =
     (let client = clientObjs s r;
          healthCheck = \<lparr>hc_serverName = clientName client, hc_isHealthy = fst decision,
             lastCheck = clock s, hc_errorMessage = snd decision,
             hc_responseTime = Some (clock s - clock s)\<rparr>;
          s = s\<lparr>healthChecks := (healthChecks s)(clientName client \<mapsto> healthCheck)\<rparr>
      in (healthCheck,
          if fst decision then markHealthy (clientName client) s
          else markUnhealthy (clientName client) (snd decision) s))"

definition checkServerHealth :: "nat \<Rightarrow> proxy \<Rightarrow> proxy" where
  "checkServerHealth r s = snd (writeHealthCheck r (checkDecision (clientObjs s r)) s)"

definition triggerHealthCheck :: "nat \<Rightarrow> proxy \<Rightarrow> MCPHealthCheck \<times> proxy" where
  "triggerHealthCheck r s = writeHealthCheck r (triggerDecision (clientObjs s r)) s"

text \<open>\<^verbatim>\<open>performHealthChecks\<close>: the periodic check of every client.\<close>

definition performHealthChecks :: "proxy \<Rightarrow> proxy" where
  "performHealthChecks s = foldl (\<lambda>s r. checkServerHealth r s) s (connectedClients s)"

text \<open>\<^verbatim>\<open>shouldMarkUnhealthy\<close> (lines 536-543).\<close>

definition shouldMarkUnhealthy :: "proxy \<Rightarrow> string \<Rightarrow> nat \<Rightarrow> bool" where
  "shouldMarkUnhealthy s n consecutiveFailures =
     (case healthChecks s n of
        None \<Rightarrow> False
      | Some healthCheck \<Rightarrow> consecutiveFailures \<ge> 5)"

section \<open>The proxy server\<close>

text \<open>
  \<^verbatim>\<open>createServer\<close> (unnamed/part_003, lines 31-56), from the clients that
  \<^verbatim>\<open>createClients\<close> returned: the Metrics Store has a record for every client, the
  Health Monitor is started, the routing tables and the failure counters are empty.
\<close>

definition createServer :: "ConnectedClient list \<Rightarrow> int \<Rightarrow> proxy" where
  "createServer clients now =
     startMonitoring
       \<lparr>clientObjs = (\<lambda>r. if r < length clients then clients ! r
                          else \<lparr>clientName = [], isConnected = False, lastError = None,
                                lastErrorLogged = False\<rparr>),
        connectedClients = [0..<length clients],
        metricsManager = foldl (\<lambda>mm c. initializeServer mm (clientName c) now) newMetricsManager clients,
        healthChecks = Map.empty,
        toolToClientMap = Map.empty,
        resourceToClientMap = Map.empty,
        promptToClientMap = Map.empty,
        failureCounts = Map.empty,
        clock = now,
        effects = []\<rparr>"

definition getHealthyClients :: "proxy \<Rightarrow> nat list" where
  "getHealthyClients s = filter (\<lambda>r. isConnected (clientObjs s r)) (connectedClients s)"

subsection \<open>The retry wrapper\<close>

text \<open>
  The operation handed to \<^verbatim>\<open>executeWithRetry\<close> is a closure that sends a request to the
  upstream. What the upstream answers is not in the program: a script gives, for the
  invocation made at each attempt, how the promise settles (\<open>Inl\<close> the message of the
  error it rejects with, \<open>Inr\<close> the result) and the time that takes. The rejection
  \<^verbatim>\<open>Request timeout\<close> of the timer the request is raced against is one of the
  rejections of the script.
\<close>

type_synonym 'r script = "nat \<Rightarrow> (string + 'r) \<times> int"

type_synonym 'r operation = "nat \<Rightarrow> proxy \<Rightarrow> (string + 'r) \<times> proxy"

text \<open>The closures of the list, get and read handlers: the request, raced against a timer.\<close>

definition request :: "'r script \<Rightarrow> 'r operation" where
  "request script attempt s =
     (fst (script attempt), s\<lparr>clock := clock s + snd (script attempt)\<rparr>)"

text \<open>
  The closure of the tools/call handler (lines 430-472): the request, and the record of
  its outcome in the Metrics Store, a failure being thrown again. The proxy is modelled
  with the \<^verbatim>\<open>recordRequest\<close> of unnamed/part_005.
\<close>

definition toolCallOperation :: "string \<Rightarrow> 'r script \<Rightarrow> 'r operation" where
  "toolCallOperation cname script attempt s =
     (let s = s\<lparr>clock := clock s + snd (script attempt)\<rparr>;
          responseTime = real_of_int (snd (script attempt))
      in case fst (script attempt) of
           Inr result \<Rightarrow>
             (Inr result,
              s\<lparr>metricsManager := recordRequest (metricsManager s) cname responseTime True (clock s)\<rparr>)
         | Inl errorMessage \<Rightarrow>
             (Inl errorMessage,
              s\<lparr>metricsManager := recordRequest (metricsManager s) cname responseTime False (clock s)\<rparr>))"

text \<open>Awaiting the back-off timer (line 242).\<close>

definition sleep :: "nat \<Rightarrow> proxy \<Rightarrow> proxy" where
  "sleep ms s = s\<lparr>clock := clock s + int ms, effects := effects s @ [Backoff ms]\<rparr>"

text \<open>
  Lines 194-227, what the \<^verbatim>\<open>catch\<close> block does with the failure counter and the
  Metrics Store. \<^verbatim>\<open>failureCounts.get(client.name) || 0\<close> reads a missing counter as 0.
\<close>

definition noteFailure :: "string \<Rightarrow> string \<Rightarrow> proxy \<Rightarrow> proxy" where
  "noteFailure cname errorMessage s =
     (if isConnectionError errorMessage then
        let currentFailures = (case failureCounts s cname of None \<Rightarrow> 0 | Some n \<Rightarrow> n);
            s = s\<lparr>failureCounts := (failureCounts s)(cname \<mapsto> currentFailures + 1)\<rparr>
        in if shouldMarkUnhealthy s cname (currentFailures + 1)
           then markUnhealthy cname (Some errorMessage) s
           else s
      else s)"

text \<open>
  The loop of \<^verbatim>\<open>executeWithRetry\<close> (lines 175-246) from a given attempt on. The result is
  \<open>Inr\<close> the returned value or \<open>Inl\<close> the thrown value: \<open>Some\<close> the message of an
  \<^verbatim>\<open>Error\<close>, or \<open>None\<close> for \<^verbatim>\<open>null\<close>, the initial value of \<^verbatim>\<open>lastError\<close>.
\<close>

function attemptLoop ::
  "string \<Rightarrow> 'r operation \<Rightarrow> nat \<Rightarrow> nat \<Rightarrow> string option \<Rightarrow> proxy \<Rightarrow> (string option + 'r) \<times> proxy" where
  "attemptLoop cname operation maxRetries attempt lastErr s =
     (if attempt \<le> maxRetries then
        (case operation attempt (s\<lparr>effects := effects s @ [Attempt cname attempt]\<rparr>) of
           (Inr result, s') \<Rightarrow> (Inr result, s'\<lparr>failureCounts := (failureCounts s')(cname \<mapsto> 0)\<rparr>)
         | (Inl errorMessage, s') \<Rightarrow>
             (let s'' = noteFailure cname errorMessage s' in
              if attempt = maxRetries then (Inl (Some errorMessage), s'')
              else if \<not> isConnectionError errorMessage then (Inl (Some errorMessage), s'')
              else attemptLoop cname operation maxRetries (Suc attempt) (Some errorMessage)
                     (sleep (2 ^ attempt * 1000) s'')))
      else (Inl lastErr, s))"
  by pat_completeness auto
termination
  by (relation "measure (\<lambda>(cname, operation, maxRetries, attempt, lastErr, s). Suc maxRetries - attempt)")
     auto

text \<open>
  The parameter \<^verbatim>\<open>maxRetries\<close> of \<^verbatim>\<open>executeWithRetry\<close> is optional with the default 2:
  \<open>None\<close> is a call that leaves it out.
\<close>

definition retriesOf :: "nat option \<Rightarrow> nat" where
  "retriesOf maxRetries = (case maxRetries of None \<Rightarrow> 2 | Some n \<Rightarrow> n)"

text \<open>\<^verbatim>\<open>executeWithRetry\<close> (lines 167-247).\<close>

definition executeWithRetry ::
  "string \<Rightarrow> 'r operation \<Rightarrow> nat option \<Rightarrow> proxy \<Rightarrow> (string option + 'r) \<times> proxy" where
  "executeWithRetry cname operation maxRetries s =
     attemptLoop cname operation (retriesOf maxRetries) 0 None s"

subsection \<open>The list handlers\<close>

text \<open>
  What an upstream lists: a tool or a prompt (\<^verbatim>\<open>name\<close>, optional \<^verbatim>\<open>description\<close>), a
  resource (\<^verbatim>\<open>uri\<close>, \<^verbatim>\<open>name\<close>) or a resource template (\<^verbatim>\<open>uriTemplate\<close> in \<open>d_uri\<close>,
  \<^verbatim>\<open>name\<close>, optional \<^verbatim>\<open>description\<close>). The result schemas of the SDK make the listed
  array a required field, so the tests \<^verbatim>\<open>if (result.tools)\<close> and the like always
  succeed.
\<close>

record descriptor =
  d_name :: string
  d_uri :: string
  d_description :: "string option"

datatype listKind = Tools | Prompts | Resources | ResourceTemplates

text \<open>The field a routing table is keyed by: the name of a tool or prompt, the URI of a resource.\<close>

definition entityKey :: "listKind \<Rightarrow> descriptor \<Rightarrow> string" where
  "entityKey kind d = (case kind of Resources \<Rightarrow> d_uri d | _ \<Rightarrow> d_name d)"

text \<open>
  The statement of each handler that empties its table (lines 252, 636, 721) and the
  one that enters a descriptor into it (lines 290, 674, 757). The handler of
  resources/templates/list (lines 913-992) has neither.
\<close>

definition clearTable :: "listKind \<Rightarrow> proxy \<Rightarrow> proxy" where
  "clearTable kind s =
     (case kind of
        Tools \<Rightarrow> s\<lparr>toolToClientMap := Map.empty\<rparr>
      | Prompts \<Rightarrow> s\<lparr>promptToClientMap := Map.empty\<rparr>
      | Resources \<Rightarrow> s\<lparr>resourceToClientMap := Map.empty\<rparr>
      | ResourceTemplates \<Rightarrow> s)"

definition setTable :: "listKind \<Rightarrow> nat \<Rightarrow> proxy \<Rightarrow> descriptor \<Rightarrow> proxy" where
  "setTable kind r s d =
     (case kind of
        Tools \<Rightarrow> s\<lparr>toolToClientMap := (toolToClientMap s)(d_name d \<mapsto> r)\<rparr>
      | Prompts \<Rightarrow> s\<lparr>promptToClientMap := (promptToClientMap s)(d_name d \<mapsto> r)\<rparr>
      | Resources \<Rightarrow> s\<lparr>resourceToClientMap := (resourceToClientMap s)(d_uri d \<mapsto> r)\<rparr>
      | ResourceTemplates \<Rightarrow> s)"

text \<open>The descriptor as the handler returns it, with the upstream's name in brackets.\<close>

definition withSource :: "listKind \<Rightarrow> string \<Rightarrow> descriptor \<Rightarrow> descriptor" where
  "withSource kind cname d =
     (case kind of
        Tools \<Rightarrow> d\<lparr>d_description := Some (''['' @ cname @ ''] '' @ orElse (d_description d) [])\<rparr>
      | Prompts \<Rightarrow> d\<lparr>d_description := Some (''['' @ cname @ ''] '' @ orElse (d_description d) [])\<rparr>
      | Resources \<Rightarrow> d\<lparr>d_name := ''['' @ cname @ ''] '' @ d_name d\<rparr>
      | ResourceTemplates \<Rightarrow>
          d\<lparr>d_name := ''['' @ cname @ ''] '' @ d_name d,
            d_description := (if truthy (d_description d)
                              then Some (''['' @ cname @ ''] '' @ orElse (d_description d) [])
                              else None)\<rparr>)"

text \<open>\<^verbatim>\<open>error instanceof Error ? error.message : 'Unknown error'\<close>.\<close>

definition messageOf :: "string option \<Rightarrow> string" where
  "messageOf error = (case error of Some m \<Rightarrow> m | None \<Rightarrow> ''Unknown error'')"

text \<open>
  The three statements that follow a failure in the handlers (lines 311-319, 502-510,
  619-627, 687-695, 770-778, 898-906, 963-971): the client is marked as not connected,
  the message is kept, and the manual health check is called; its body has no
  \<^verbatim>\<open>await\<close>, so it has run when the call returns.
\<close>

definition demote :: "nat \<Rightarrow> string \<Rightarrow> proxy \<Rightarrow> proxy" where
  "demote r errorMessage s =
     snd (triggerHealthCheck r
       (s\<lparr>clientObjs := (clientObjs s)
             (r := (clientObjs s r)\<lparr>isConnected := False, lastError := Some errorMessage\<rparr>)\<rparr>))"

text \<open>
  The \<^verbatim>\<open>catch\<close> block of the task of one upstream: tools/list (lines 299-326) looks
  at the class of the error; prompts/list (683-698), resources/list (766-781) and
  resources/templates/list (959-974) do not.
\<close>

definition onListError :: "listKind \<Rightarrow> nat \<Rightarrow> string option \<Rightarrow> proxy \<Rightarrow> proxy" where
  "onListError kind r error s =
     (let errorMessage = messageOf error in
      case kind of
        Tools \<Rightarrow> (if isConnectionError errorMessage then demote r errorMessage s else s)
      | _ \<Rightarrow> demote r errorMessage s)"

text \<open>
  The task of one upstream in a list handler. Its own \<^verbatim>\<open>try\<close>/\<^verbatim>\<open>catch\<close> turns a
  failure into the empty list, so the promise never rejects; the result keeps the type
  of a settled promise, \<open>Inl\<close> for a rejection.
\<close>

definition listTask ::
  "listKind \<Rightarrow> descriptor list script \<Rightarrow> nat \<Rightarrow> proxy \<Rightarrow> (string option + descriptor list) \<times> proxy" where
  "listTask kind script r s =
     (let cname = clientName (clientObjs s r) in
      case executeWithRetry cname (request script) None s of
        (Inr result, s) \<Rightarrow> (Inr (map (withSource kind cname) result), foldl (setTable kind r) s result)
      | (Inl error, s) \<Rightarrow> (Inr [], onListError kind r error s))"

text \<open>
  \<^verbatim>\<open>Promise.allSettled\<close> over the tasks. The source starts the tasks together and
  they interleave where they await; each touches only the failure counter, the metrics
  and the connection state of its own upstream and, after its last await, the routing
  table. The model runs them one after the other in the order of the array, which is
  one of the possible completion orders.
\<close>

fun allSettled :: "(proxy \<Rightarrow> 'a \<times> proxy) list \<Rightarrow> proxy \<Rightarrow> 'a list \<times> proxy" where
  "allSettled [] s = ([], s)"
| "allSettled (t # ts) s =
     (case t s of (v, s') \<Rightarrow> (case allSettled ts s' of (vs, s'') \<Rightarrow> (v # vs, s'')))"

text \<open>The values of the fulfilled promises, concatenated (lines 332-339).\<close>

definition collect :: "(string option + 'a list) list \<Rightarrow> 'a list" where
  "collect results = concat (map (\<lambda>res. case res of Inr v \<Rightarrow> v | Inl _ \<Rightarrow> []) results)"

text \<open>
  The four list handlers (lines 250-351, 634-716, 719-799, 913-992); \<open>upstream r\<close> is
  the script of the upstream behind the reference \<open>r\<close>. The result is the listing or
  the thrown error.
\<close>

definition listHandler ::
  "listKind \<Rightarrow> (nat \<Rightarrow> descriptor list script) \<Rightarrow> proxy \<Rightarrow> (string option + descriptor list) \<times> proxy" where
  "listHandler kind upstream s =
     (let s = clearTable kind s;
          healthyClients = getHealthyClients s
      in if healthyClients = [] then (Inr [], s)
         else case allSettled (map (\<lambda>r. listTask kind (upstream r) r) healthyClients) s of
                (results, s) \<Rightarrow> (Inr (collect results), s))"

subsection \<open>The targeted handlers\<close>

text \<open>
  The rebuild of a routing table after a miss (lines 360-418, 522-581, 806-865): the
  list request goes to every connected upstream, a failure is logged and changes
  nothing.
\<close>

definition rebuildTask ::
  "listKind \<Rightarrow> descriptor list script \<Rightarrow> nat \<Rightarrow> proxy \<Rightarrow> (string option + descriptor list) \<times> proxy" where
  "rebuildTask kind script r s =
     (let cname = clientName (clientObjs s r) in
      case executeWithRetry cname (request script) None s of
        (Inr result, s) \<Rightarrow> (Inr result, foldl (setTable kind r) s result)
      | (Inl error, s) \<Rightarrow> (Inr [], s))"

definition rebuildMapping :: "listKind \<Rightarrow> (nat \<Rightarrow> descriptor list script) \<Rightarrow> proxy \<Rightarrow> proxy" where
  "rebuildMapping kind upstream s =
     (let s = clearTable kind s;
          healthyClients = getHealthyClients s
      in snd (allSettled (map (\<lambda>r. rebuildTask kind (upstream r) r) healthyClients) s))"

text \<open>
  The second half of the tools/call handler (lines 424-514): the call is sent to the
  client the table gave, with at most one retry.
\<close>

definition dispatchToolCall ::
  "string \<Rightarrow> nat \<Rightarrow> 'r script \<Rightarrow> proxy \<Rightarrow> (string option + 'r) \<times> proxy" where
  "dispatchToolCall toolName r script s =
     (let cname = clientName (clientObjs s r) in
      case executeWithRetry cname (toolCallOperation cname script) (Some 1) s of
        (Inr result, s) \<Rightarrow> (Inr result, s)
      | (Inl error, s) \<Rightarrow>
          (let errorMessage = messageOf error in
           if isToolNotFound errorMessage then
             (Inl (Some (''Tool '' @ [CHR 0x27] @ toolName @ [CHR 0x27] @
                         '' is not supported by server '' @ cname)),
              s\<lparr>toolToClientMap := (toolToClientMap s)(toolName := None)\<rparr>)
           else if isConnectionError errorMessage then (Inl error, demote r errorMessage s)
           else (Inl error, s)))"


text \<open>
  The second halves of the prompts/get handler (lines 587-630) and of the
  resources/read handler (lines 871-909), and the handlers (lines 518-631, 802-910).
\<close>

definition dispatchGetPrompt :: "nat \<Rightarrow> 'r script \<Rightarrow> proxy \<Rightarrow> (string option + 'r) \<times> proxy" where
  "dispatchGetPrompt r script s =
     (let cname = clientName (clientObjs s r) in
      case executeWithRetry cname (request script) None s of
        (Inr result, s) \<Rightarrow> (Inr result, s)
      | (Inl error, s) \<Rightarrow> (Inl error, demote r (messageOf error) s))"

definition getPromptHandler ::
  "string \<Rightarrow> (nat \<Rightarrow> descriptor list script) \<Rightarrow> 'r script \<Rightarrow> proxy \<Rightarrow> (string option + 'r) \<times> proxy" where
  "getPromptHandler promptName upstream script s =
     (let s = (case promptToClientMap s promptName of
                 Some r \<Rightarrow> s
               | None \<Rightarrow> rebuildMapping Prompts upstream s)
      in case promptToClientMap s promptName of
           None \<Rightarrow>
             (Inl (Some (''Prompt '' @ [CHR 0x27] @ promptName @ [CHR 0x27] @
                '' is not available on any connected server. Please check if the prompt exists and the server is running.'')),
              s)
         | Some r \<Rightarrow> dispatchGetPrompt r script s)"

definition dispatchReadResource :: "nat \<Rightarrow> 'r script \<Rightarrow> proxy \<Rightarrow> (string option + 'r) \<times> proxy" where
  "dispatchReadResource r script s =
     (let cname = clientName (clientObjs s r) in
      case executeWithRetry cname (request script) None s of
        (Inr result, s) \<Rightarrow> (Inr result, s)
      | (Inl error, s) \<Rightarrow> (Inl error, demote r (messageOf error) s))"

definition readResourceHandler ::
  "string \<Rightarrow> (nat \<Rightarrow> descriptor list script) \<Rightarrow> 'r script \<Rightarrow> proxy \<Rightarrow> (string option + 'r) \<times> proxy" where
  "readResourceHandler uri upstream script s =
     (let s = (case resourceToClientMap s uri of
                 Some r \<Rightarrow> s
               | None \<Rightarrow> rebuildMapping Resources upstream s)
      in case resourceToClientMap s uri of
           None \<Rightarrow>
             (Inl (Some (''Resource '' @ [CHR 0x27] @ uri @ [CHR 0x27] @
                '' is not available on any connected server. Please check if the resource exists and the server is running.'')),
              s)
         | Some r \<Rightarrow> dispatchReadResource r script s)"

subsection \<open>What the retry wrapper is specified to do\<close>

text \<open>
  The specification's words for the wrapper, as functions of the script alone. With
  \<open>n\<close> retries left from attempt \<open>k\<close> on, \<open>lastAttempt n script k\<close> is the attempt at
  which the wrapper stops: the first one that succeeds or fails with an error that is
  not connection-class, or else the last one allowed.
\<close>

fun lastAttempt :: "nat \<Rightarrow> 'r script \<Rightarrow> nat \<Rightarrow> nat" where
  "lastAttempt 0 script k = k"
| "lastAttempt (Suc n) script k =
     (case fst (script k) of
        Inr _ \<Rightarrow> k
      | Inl m \<Rightarrow> if isConnectionError m then lastAttempt n script (Suc k) else k)"

text \<open>The result of the wrapper: the outcome of the attempt it stops at.\<close>

definition retryResult :: "nat \<Rightarrow> 'r script \<Rightarrow> string option + 'r" where
  "retryResult maxRetries script =
     (case fst (script (lastAttempt maxRetries script 0)) of
        Inr v \<Rightarrow> Inr v
      | Inl m \<Rightarrow> Inl (Some m))"

text \<open>
  The consecutive-failure counter after one more outcome, and whether that outcome
  has the upstream marked unhealthy, given the counter before it.
\<close>

definition counterAfter :: "nat \<Rightarrow> string + 'r \<Rightarrow> nat" where
  "counterAfter n out =
     (case out of Inr _ \<Rightarrow> 0 | Inl m \<Rightarrow> if isConnectionError m then n + 1 else n)"

definition marksUnhealthy :: "nat \<Rightarrow> string + 'r \<Rightarrow> bool" where
  "marksUnhealthy n out =
     (case out of Inr _ \<Rightarrow> False | Inl m \<Rightarrow> isConnectionError m \<and> n + 1 \<ge> 5)"

text \<open>Reading the log: the attempts made on an upstream, the back-off delays, the demotions.\<close>

definition attemptsOn :: "string \<Rightarrow> effect list \<Rightarrow> nat list" where
  "attemptsOn cname es = concat (map (\<lambda>e. case e of Attempt c k \<Rightarrow> if c = cname then [k] else [] | _ \<Rightarrow> []) es)"

definition backoffs :: "effect list \<Rightarrow> nat list" where
  "backoffs es = concat (map (\<lambda>e. case e of Backoff ms \<Rightarrow> [ms] | _ \<Rightarrow> []) es)"

definition unhealthyMarks :: "string \<Rightarrow> effect list \<Rightarrow> nat" where
  "unhealthyMarks cname es = length (filter (\<lambda>e. e = MarkUnhealthy cname) es)"

text \<open>The failure counter as the wrapper reads it.\<close>

definition failureCount :: "proxy \<Rightarrow> string \<Rightarrow> nat" where
  "failureCount s cname = (case failureCounts s cname of None \<Rightarrow> 0 | Some n \<Rightarrow> n)"

text \<open>The outcomes of the attempts \<open>k\<close> to \<open>l\<close> of a script.\<close>

definition observed :: "'r script \<Rightarrow> nat \<Rightarrow> nat \<Rightarrow> (string + 'r) list" where
  "observed script k l = map (\<lambda>j. fst (script j)) [k..<Suc l]"

text \<open>How often a list of outcomes has the upstream marked unhealthy, from a given counter.\<close>

fun countMarks :: "nat \<Rightarrow> (string + 'r) list \<Rightarrow> nat" where
  "countMarks n [] = 0"
| "countMarks n (out # outs) =
     (if marksUnhealthy n out then 1 else 0) + countMarks (counterAfter n out) outs"

text \<open>
  The places where the handlers call the wrapper: the task of each of the four list
  handlers (lines 250-351, 634-716, 719-799, 913-992), the task of each of the three
  rebuilds (lines 360-418, 522-581, 806-865), and the forwarding of tools/call (lines
  424-514), prompts/get (lines 587-630) and resources/read (lines 871-909). Each is a
  \<^verbatim>\<open>try\<close> block around the call of \<^verbatim>\<open>executeWithRetry\<close>, with its \<^verbatim>\<open>catch\<close> block. A
  dispatch names the place, and carries the script of the upstream's answers and, for
  tools/call, the name of the tool.
\<close>

datatype 'r dispatch =
    ListDispatch listKind "descriptor list script"
  | RebuildTools "descriptor list script"
  | RebuildPrompts "descriptor list script"
  | RebuildResources "descriptor list script"
  | CallTool string "'r script"
  | GetPrompt "'r script"
  | ReadResource "'r script"

text \<open>What a dispatch to the upstream behind the reference \<open>r\<close> does to the state.\<close>

definition dispatchTo :: "nat \<Rightarrow> 'r dispatch \<Rightarrow> proxy \<Rightarrow> proxy" where
  "dispatchTo r q s =
     (case q of
        ListDispatch kind script \<Rightarrow> snd (listTask kind script r s)
      | RebuildTools script \<Rightarrow> snd (rebuildTask Tools script r s)
      | RebuildPrompts script \<Rightarrow> snd (rebuildTask Prompts script r s)
      | RebuildResources script \<Rightarrow> snd (rebuildTask Resources script r s)
      | CallTool toolName script \<Rightarrow> snd (dispatchToolCall toolName r script s)
      | GetPrompt script \<Rightarrow> snd (dispatchGetPrompt r script s)
      | ReadResource script \<Rightarrow> snd (dispatchReadResource r script s))"


text \<open>
  The specification's words for such a sequence. The answers of the upstream to a
  dispatch, without the results; the retries the place allows (1 for tools/call, 2
  elsewhere); the outcomes the wrapper sees over the sequence, in order; and the delays
  it is specified to wait, \<open>2 ^ attempt * 1000\<close> ms after each attempt that is retried.
\<close>

definition outcome :: "string + 'a \<Rightarrow> string + unit" where
  "outcome out = (case out of Inl m \<Rightarrow> Inl m | Inr v \<Rightarrow> Inr ())"








text \<open>
  The names one upstream contributes to a listing of a given kind: the keys of what it
  lists when the wrapper's request to it succeeds, and nothing when it fails.
\<close>

definition listed :: "listKind \<Rightarrow> descriptor list script \<Rightarrow> string set" where
  "listed kind script =
     (case retryResult 2 script of Inr ds \<Rightarrow> entityKey kind ` set ds | Inl e \<Rightarrow> {})"

subsection \<open>Auxiliary notions for the proofs\<close>

text \<open>The parts of the state that the retry wrapper leaves alone.\<close>

definition frame :: "proxy \<Rightarrow> (nat \<Rightarrow> ConnectedClient) \<times> nat list \<times> (string \<rightharpoonup> MCPHealthCheck) \<times>
    (string \<rightharpoonup> nat) \<times> (string \<rightharpoonup> nat) \<times> (string \<rightharpoonup> nat)" where
  "frame s = (clientObjs s, connectedClients s, healthChecks s, toolToClientMap s,
              resourceToClientMap s, promptToClientMap s)"

text \<open>An operation that answers as a script says and touches neither the counters nor the log.\<close>

definition scripted :: "'r operation \<Rightarrow> 'r script \<Rightarrow> bool" where
  "scripted op script =
     (\<forall>k s. fst (op k s) = fst (script k) \<and> frame (snd (op k s)) = frame s \<and>
            failureCounts (snd (op k s)) = failureCounts s \<and> effects (snd (op k s)) = effects s)"

text \<open>What a run of the loop from attempt \<open>k\<close> that stops at attempt \<open>l\<close> leaves behind.\<close>

definition loopSpec ::
  "string \<Rightarrow> 'r script \<Rightarrow> nat \<Rightarrow> nat \<Rightarrow> proxy \<Rightarrow> (string option + 'r) \<times> proxy \<Rightarrow> bool" where
  "loopSpec c script k l s out =
     (fst out = (case fst (script l) of Inr v \<Rightarrow> Inr v | Inl m \<Rightarrow> Inl (Some m)) \<and>
      frame (snd out) = frame s \<and>
      attemptsOn c (effects (snd out)) = attemptsOn c (effects s) @ [k..<Suc l] \<and>
      backoffs (effects (snd out)) = backoffs (effects s) @ map (\<lambda>j. 2 ^ j * 1000) [k..<l] \<and>
      failureCount (snd out) c = foldl counterAfter (failureCount s c) (observed script k l) \<and>
      (\<forall>c'. c' \<noteq> c \<longrightarrow> failureCounts (snd out) c' = failureCounts s c') \<and>
      (healthChecks s c \<noteq> None \<longrightarrow>
         unhealthyMarks c (effects (snd out)) =
           unhealthyMarks c (effects s) + countMarks (failureCount s c) (observed script k l)))"

text \<open>
  The routing table a list handler rebuilds, where it has one; the three tables
  together; the names of the clients.
\<close>

definition tableOf :: "listKind \<Rightarrow> proxy \<Rightarrow> (string \<rightharpoonup> nat)" where
  "tableOf kind s =
     (case kind of
        Tools \<Rightarrow> toolToClientMap s
      | Prompts \<Rightarrow> promptToClientMap s
      | Resources \<Rightarrow> resourceToClientMap s
      | ResourceTemplates \<Rightarrow> Map.empty)"

definition tables :: "proxy \<Rightarrow> (string \<rightharpoonup> nat) \<times> (string \<rightharpoonup> nat) \<times> (string \<rightharpoonup> nat)" where
  "tables s = (toolToClientMap s, promptToClientMap s, resourceToClientMap s)"

definition names :: "proxy \<Rightarrow> nat \<Rightarrow> string" where
  "names s = (\<lambda>r. clientName (clientObjs s r))"

text \<open>Two states with the same clients, health-check records, failure counters and log.\<close>

definition undisturbed :: "proxy \<Rightarrow> proxy \<Rightarrow> bool" where
  "undisturbed s s' \<longleftrightarrow>
     clientObjs s' = clientObjs s \<and> healthChecks s' = healthChecks s \<and>
     failureCounts s' = failureCounts s \<and> effects s' = effects s"

text \<open>The fields of a metrics record that only \<^verbatim>\<open>recordRequest\<close> writes.\<close>

definition requestFields :: "MCPServerMetrics \<Rightarrow> nat \<times> nat \<times> real \<times> real \<times> real \<times> int" where
  "requestFields m = (errorCount m, totalRequests m, successRate m, responseTime m, loadFactor m, lastUsed m)"

text \<open>A proxy with one connected upstream \<open>A\<close>, for the examples.\<close>

definition exampleClient :: ConnectedClient where
  "exampleClient = \<lparr>clientName = ''A'', isConnected = True, lastError = None, lastErrorLogged = False\<rparr>"

definition exampleProxy :: proxy where
  "exampleProxy = createServer [exampleClient] 0"

text \<open>
  Scripts for the examples: an upstream that refuses the first connection and then
  answers, and one that refuses every connection.
\<close>

definition exampleScript :: "string script" where
  "exampleScript k = (if k = 0 then (Inl ''connect ECONNREFUSED 127.0.0.1:3000'', 12) else (Inr ''done'', 40))"


text \<open>A client that is connected and still carries an error message.\<close>

definition staleErrorClient :: ConnectedClient where
  "staleErrorClient = \<lparr>clientName = ''A'', isConnected = True, lastError = Some ''SSE connection closed'',
     lastErrorLogged = True\<rparr>"

text \<open>
  Upstreams for the examples: one that lists a tool, one that lists a resource
  template, one that rejects every list request as invalid; and the example proxy with
  an entry left in its resource table.
\<close>

definition toolsUpstream :: "nat \<Rightarrow> descriptor list script" where
  "toolsUpstream r k = (Inr [\<lparr>d_name = ''t1'', d_uri = [], d_description = Some ''does X''\<rparr>], 3)"

definition templatesUpstream :: "nat \<Rightarrow> descriptor list script" where
  "templatesUpstream r k =
     (Inr [\<lparr>d_name = ''logs'', d_uri = ''file:///{path}'', d_description = None\<rparr>], 3)"

definition invalidParameters :: "nat \<Rightarrow> descriptor list script" where
  "invalidParameters r k = (Inl ''Invalid parameters'', 7)"

definition staleProxy :: proxy where
  "staleProxy = exampleProxy\<lparr>resourceToClientMap := [''file:///old'' \<mapsto> 0]\<rparr>"






declare attemptLoop.simps [simp del]

section \<open>Facts about the Metrics Store\<close>

lemma str_includes_iff: "str_includes s t \<longleftrightarrow> (\<exists>p q. s = p @ t @ q)"
proof (induction s)
  case Nil
  then show ?case by auto
next
  case (Cons c s)
  show ?case
  proof
    assume "str_includes (c # s) t"
    then consider "prefix t (c # s)" | "str_includes s t" by auto
    then show "\<exists>p q. c # s = p @ t @ q"
    proof cases
      case 1
      then obtain q where "c # s = t @ q" by (auto simp: prefix_def)
      then have "c # s = [] @ t @ q" by simp
      then show ?thesis by blast
    next
      case 2
      with Cons obtain p q where "s = p @ t @ q" by blast
      then have "c # s = (c # p) @ t @ q" by simp
      then show ?thesis by blast
    qed
  next
    assume "\<exists>p q. c # s = p @ t @ q"
    then obtain p q where pq: "c # s = p @ t @ q" by blast
    show "str_includes (c # s) t"
    proof (cases p)
      case Nil
      with pq have "prefix t (c # s)" by (simp add: prefix_def)
      then show ?thesis by simp
    next
      case (Cons a p')
      with pq have "s = p' @ t @ q" by simp
      with Cons.IH have "str_includes s t" by blast
      then show ?thesis by simp
    qed
  qed
qed

lemma updateQualityScore_eq:
  "updateQualityScore mm name now =
     (case metrics mm name of
        None \<Rightarrow> mm
      | Some m \<Rightarrow> mm\<lparr>qualityScores := (qualityScores mm)(name \<mapsto> scoreOf name m now)\<rparr>)"
  by (simp add: updateQualityScore_def scoreOf_def Let_def split: option.splits)

lemma metrics_updateQualityScore [simp]:
  "metrics (updateQualityScore mm name now) = metrics mm"
  by (simp add: updateQualityScore_eq split: option.splits)

lemma store_update:
  "updateQualityScore (mm\<lparr>metrics := (metrics mm)(name \<mapsto> m)\<rparr>) name now =
     \<lparr>metrics = (metrics mm)(name \<mapsto> m),
      qualityScores = (qualityScores mm)(name \<mapsto> scoreOf name m now)\<rparr>"
  by (simp add: updateQualityScore_eq)

lemma scores_ok_store:
  "scores_ok mm \<Longrightarrow> scores_ok (updateQualityScore (mm\<lparr>metrics := (metrics mm)(name \<mapsto> m)\<rparr>) name now)"
  unfolding store_update scores_ok_def by auto

lemma counts_ok_store:
  "counts_ok mm \<Longrightarrow> errorCount m \<le> totalRequests m \<Longrightarrow>
   counts_ok (updateQualityScore (mm\<lparr>metrics := (metrics mm)(name \<mapsto> m)\<rparr>) name now)"
  unfolding store_update counts_ok_def by auto

lemma updateLoadFactor_fields [simp]:
  "totalRequests (updateLoadFactor m now) = totalRequests m"
  "errorCount (updateLoadFactor m now) = errorCount m"
  "successRate (updateLoadFactor m now) = successRate m"
  by (simp_all add: updateLoadFactor_def Let_def)

lemma recordSample_counts:
  "totalRequests (recordSample m rt ok now) = totalRequests m + 1"
  "errorCount (recordSample m rt ok now) = errorCount m + (if ok then 0 else 1)"
  "successRate (recordSample m rt ok now) =
     1 - real (errorCount m + (if ok then 0 else 1)) / real (totalRequests m + 1)"
  by (simp_all add: recordSample_def Let_def)

lemma recordSample_src_counts:
  "totalRequests (recordSample_src m rt ok now) = totalRequests m + 1"
  "errorCount (recordSample_src m rt ok now) = errorCount m + (if ok then 0 else 1)"
  "successRate (recordSample_src m rt ok now) =
     1 - real (errorCount m + (if ok then 0 else 1)) / real (totalRequests m + 1)"
  by (simp_all add: recordSample_src_def Let_def)

lemma scores_ok_initializeServer: "scores_ok mm \<Longrightarrow> scores_ok (initializeServer mm name now)"
  by (simp add: initializeServer_def Let_def scores_ok_store)

lemma counts_ok_initializeServer: "counts_ok mm \<Longrightarrow> counts_ok (initializeServer mm name now)"
  by (simp add: initializeServer_def Let_def counts_ok_store)

lemma scores_ok_recordRequest: "scores_ok mm \<Longrightarrow> scores_ok (recordRequest mm name rt ok now)"
  by (auto simp: recordRequest_def Let_def scores_ok_store scores_ok_initializeServer split: option.splits)

lemma counts_ok_recordRequest: "counts_ok mm \<Longrightarrow> counts_ok (recordRequest mm name rt ok now)"
proof -
  assume ok: "counts_ok mm"
  define mm0 where "mm0 = (case metrics mm name of None \<Rightarrow> initializeServer mm name now | Some _ \<Rightarrow> mm)"
  have ok0: "counts_ok mm0"
    using ok by (simp add: mm0_def counts_ok_initializeServer split: option.splits)
  show ?thesis
  proof (cases "metrics mm0 name")
    case None
    then show ?thesis using ok0 by (simp add: recordRequest_def mm0_def [symmetric] Let_def)
  next
    case (Some m)
    with ok0 have "errorCount m \<le> totalRequests m" by (auto simp: counts_ok_def)
    then have "errorCount (recordSample m rt ok now) \<le> totalRequests (recordSample m rt ok now)"
      by (simp add: recordSample_counts)
    with ok0 Some show ?thesis
      by (simp add: recordRequest_def mm0_def [symmetric] Let_def counts_ok_store)
  qed
qed

lemma scores_ok_recordRequest_src: "scores_ok mm \<Longrightarrow> scores_ok (recordRequest_src mm name rt ok now)"
  by (auto simp: recordRequest_src_def scores_ok_store scores_ok_initializeServer split: option.splits)

lemma counts_ok_recordRequest_src: "counts_ok mm \<Longrightarrow> counts_ok (recordRequest_src mm name rt ok now)"
proof (cases "metrics mm name")
  case None
  assume "counts_ok mm"
  with None show ?thesis by (simp add: recordRequest_src_def counts_ok_initializeServer)
next
  case (Some m)
  assume ok: "counts_ok mm"
  with Some have "errorCount m \<le> totalRequests m" by (auto simp: counts_ok_def)
  then have "errorCount (recordSample_src m rt ok now) \<le> totalRequests (recordSample_src m rt ok now)"
    by (simp add: recordSample_src_counts)
  with ok Some show ?thesis by (simp add: recordRequest_src_def counts_ok_store)
qed

lemma scores_ok_mark:
  "scores_ok mm \<Longrightarrow> scores_ok (markServerUnhealthy mm name e now)"
  "scores_ok mm \<Longrightarrow> scores_ok (markServerHealthy mm name now)"
  "scores_ok mm \<Longrightarrow> scores_ok (updateCapabilityScore mm name x now)"
  by (auto simp: markServerUnhealthy_def markServerHealthy_def updateCapabilityScore_def
      scores_ok_store split: option.splits)

lemma counts_ok_mark:
  "counts_ok mm \<Longrightarrow> counts_ok (markServerUnhealthy mm name e now)"
  "counts_ok mm \<Longrightarrow> counts_ok (markServerHealthy mm name now)"
  "counts_ok mm \<Longrightarrow> counts_ok (updateCapabilityScore mm name x now)"
  by (auto simp: markServerUnhealthy_def markServerHealthy_def updateCapabilityScore_def
      counts_ok_def store_update split: option.splits)

lemma scores_ok_cleanupOldData: "scores_ok mm \<Longrightarrow> scores_ok (cleanupOldData mm now)"
  by (auto simp: scores_ok_def cleanupOldData_def split: option.splits if_splits)

lemma counts_ok_cleanupOldData: "counts_ok mm \<Longrightarrow> counts_ok (cleanupOldData mm now)"
  by (auto simp: counts_ok_def cleanupOldData_def split: option.splits if_splits)

lemma scores_ok_mm_apply: "scores_ok mm \<Longrightarrow> scores_ok (mm_apply v mm c)"
  by (cases "(v, mm, c)" rule: mm_apply.cases)
     (simp_all add: scores_ok_initializeServer scores_ok_recordRequest scores_ok_recordRequest_src
        scores_ok_mark scores_ok_cleanupOldData)

lemma counts_ok_mm_apply: "counts_ok mm \<Longrightarrow> counts_ok (mm_apply v mm c)"
  by (cases "(v, mm, c)" rule: mm_apply.cases)
     (simp_all add: counts_ok_initializeServer counts_ok_recordRequest counts_ok_recordRequest_src
        counts_ok_mark counts_ok_cleanupOldData)

lemma scores_ok_foldl: "scores_ok mm \<Longrightarrow> scores_ok (foldl (mm_apply v) mm calls)"
  by (induction calls arbitrary: mm) (simp_all add: scores_ok_mm_apply)

lemma counts_ok_foldl: "counts_ok mm \<Longrightarrow> counts_ok (foldl (mm_apply v) mm calls)"
  by (induction calls arbitrary: mm) (simp_all add: counts_ok_mm_apply)

lemma scores_ok_mm_run: "scores_ok (mm_run v calls)"
  unfolding mm_run_def by (rule scores_ok_foldl) (simp add: scores_ok_def newMetricsManager_def)

lemma counts_ok_mm_run: "counts_ok (mm_run v calls)"
  unfolding mm_run_def by (rule counts_ok_foldl) (simp add: counts_ok_def newMetricsManager_def)

text \<open>
  Claim C6. For every store reached by calls of the public interface, every upstream
  with a record in it and every call of \<^verbatim>\<open>recordRequest\<close>, in unnamed/part_005 and in
  src/metrics-manager.ts alike: afterwards \<open>totalRequests\<close> is larger by exactly 1,
  \<open>errorCount\<close> is larger by exactly 1 when the request failed and unchanged when it
  succeeded, \<open>0 \<le> errorCount \<le> totalRequests\<close>, and
  \<open>successRate = 1 - errorCount / totalRequests\<close>.
\<close>

theorem recordRequest_counters:
  "metrics (mm_run v calls) name = Some m \<Longrightarrow>
   (\<exists>m'. metrics (recordRequest (mm_run v calls) name rt ok now) name = Some m' \<and>
         totalRequests m' = totalRequests m + 1 \<and>
         errorCount m' = errorCount m + (if ok then 0 else 1) \<and>
         0 \<le> errorCount m' \<and> errorCount m' \<le> totalRequests m' \<and>
         successRate m' = 1 - real (errorCount m') / real (totalRequests m')) \<and>
   (\<exists>m'. metrics (recordRequest_src (mm_run v calls) name rt ok now) name = Some m' \<and>
         totalRequests m' = totalRequests m + 1 \<and>
         errorCount m' = errorCount m + (if ok then 0 else 1) \<and>
         0 \<le> errorCount m' \<and> errorCount m' \<le> totalRequests m' \<and>
         successRate m' = 1 - real (errorCount m') / real (totalRequests m'))"
proof -
  assume m: "metrics (mm_run v calls) name = Some m"
  have "errorCount m \<le> totalRequests m"
    using counts_ok_mm_run [of v calls] m by (auto simp: counts_ok_def)
  then show ?thesis
    using m by (simp add: recordRequest_def recordRequest_src_def store_update Let_def
        recordSample_counts recordSample_src_counts)
qed

theorem recordRequest_counters_witness:
  "metrics (mm_run True [(InitializeServer ''A'', 0)]) ''A'' =
     Some \<lparr>serverName = ''A'', responseTime = 0, successRate = 1, errorCount = 0,
       totalRequests = 0, lastUsed = 0, isHealthy = True, loadFactor = 0, capabilityScore = 1\<rparr> \<and>
   (\<exists>m'. metrics (recordRequest (mm_run True [(InitializeServer ''A'', 0)]) ''A'' 120 False 5) ''A'' = Some m' \<and>
         totalRequests m' = 1 \<and> errorCount m' = 1 \<and> successRate m' = 0) \<and>
   (\<exists>m'. metrics (recordRequest_src (mm_run True [(InitializeServer ''A'', 0)]) ''A'' 120 False 5) ''A'' = Some m' \<and>
         totalRequests m' = 1 \<and> errorCount m' = 1 \<and> successRate m' = 0)"
proof -
  have h: "metrics (mm_run True [(InitializeServer ''A'', 0)]) ''A'' =
     Some \<lparr>serverName = ''A'', responseTime = 0, successRate = 1, errorCount = 0,
       totalRequests = 0, lastUsed = 0, isHealthy = True, loadFactor = 0, capabilityScore = 1\<rparr>"
    by (simp add: mm_run_def newMetricsManager_def initializeServer_def store_update)
  show ?thesis
    using h recordRequest_counters [OF h, of 120 False 5] by auto
qed

text \<open>
  Claim C8. In every store reached by calls of the public interface (with either
  \<^verbatim>\<open>recordRequest\<close>), every record has a quality score, and the score is derived from
  the record: performance is \<open>max 0 (1 - responseTime / 5000)\<close>, reliability is
  \<open>successRate\<close> when the record is healthy and 0 when it is not, load is
  \<open>1 - loadFactor\<close>, and overall is 0.30 performance + 0.30 reliability +
  0.20 capabilityScore + 0.20 load. In particular an unhealthy record has reliability 0.
\<close>

theorem quality_score_derived:
  "metrics (mm_run v calls) name = Some m \<Longrightarrow>
   (\<exists>q. qualityScores (mm_run v calls) name = Some q \<and>
        performanceScore q = max 0 (1 - responseTime m / 5000) \<and>
        reliabilityScore q = (if isHealthy m then successRate m else 0) \<and>
        loadScore q = 1 - loadFactor m \<and>
        overallScore q = 0.30 * performanceScore q + 0.30 * reliabilityScore q +
                         0.20 * capabilityScore m + 0.20 * loadScore q \<and>
        (\<not> isHealthy m \<longrightarrow> reliabilityScore q = 0))"
proof -
  assume m: "metrics (mm_run v calls) name = Some m"
  then obtain t where "qualityScores (mm_run v calls) name = Some (scoreOf name m t)"
    using scores_ok_mm_run [of v calls] by (auto simp: scores_ok_def)
  then show ?thesis
    by (simp add: scoreOf_def calculatePerformanceScore_def calculateReliabilityScore_def
        calculateLoadScore_def)
qed

theorem quality_score_derived_witness:
  "metrics (mm_run True [(InitializeServer ''A'', 0), (RecordRequest ''A'' 1000 False, 0),
       (MarkServerUnhealthy ''A'' None, 3)]) ''A'' =
     Some \<lparr>serverName = ''A'', responseTime = 1000, successRate = 0, errorCount = 1,
       totalRequests = 1, lastUsed = 0, isHealthy = False, loadFactor = 1, capabilityScore = 1\<rparr> \<and>
   (\<exists>q. qualityScores (mm_run True [(InitializeServer ''A'', 0), (RecordRequest ''A'' 1000 False, 0),
       (MarkServerUnhealthy ''A'' None, 3)]) ''A'' = Some q \<and>
        performanceScore q = 4 / 5 \<and> reliabilityScore q = 0 \<and> loadScore q = 0 \<and>
        overallScore q = 11 / 25)"
proof -
  have h: "metrics (mm_run True [(InitializeServer ''A'', 0), (RecordRequest ''A'' 1000 False, 0),
       (MarkServerUnhealthy ''A'' None, 3)]) ''A'' =
     Some \<lparr>serverName = ''A'', responseTime = 1000, successRate = 0, errorCount = 1,
       totalRequests = 1, lastUsed = 0, isHealthy = False, loadFactor = 1, capabilityScore = 1\<rparr>"
    by (simp add: mm_run_def newMetricsManager_def initializeServer_def recordRequest_def
        markServerUnhealthy_def store_update recordSample_def updateLoadFactor_def Let_def)
  show ?thesis
    using h quality_score_derived [OF h] by auto
qed

text \<open>
  Claim C10. \<^verbatim>\<open>recordRequest\<close> of src/metrics-manager.ts, called for a server name that
  has no record: the call does what \<^verbatim>\<open>initializeServer\<close> does and nothing else. The
  record it leaves is the fresh one (no request, no error, success rate 1, response
  time 0, healthy), whatever the elapsed time and the success flag of the call.
\<close>

theorem recordRequest_src_first_call:
  "metrics mm name = None \<Longrightarrow>
   recordRequest_src mm name rt ok now = initializeServer mm name now \<and>
   metrics (recordRequest_src mm name rt ok now) name =
     Some \<lparr>serverName = name, responseTime = 0, successRate = 1, errorCount = 0,
       totalRequests = 0, lastUsed = now, isHealthy = True, loadFactor = 0, capabilityScore = 1\<rparr>"
  by (simp add: recordRequest_src_def initializeServer_def store_update Let_def)

theorem recordRequest_src_first_call_witness:
  "metrics newMetricsManager ''A'' = None \<and>
   recordRequest_src newMetricsManager ''A'' 250 False 7 = initializeServer newMetricsManager ''A'' 7 \<and>
   metrics (recordRequest_src newMetricsManager ''A'' 250 False 7) ''A'' =
     Some \<lparr>serverName = ''A'', responseTime = 0, successRate = 1, errorCount = 0,
       totalRequests = 0, lastUsed = 7, isHealthy = True, loadFactor = 0, capabilityScore = 1\<rparr>"
proof -
  have h: "metrics newMetricsManager ''A'' = None"
    by (simp add: newMetricsManager_def)
  show ?thesis
    using h recordRequest_src_first_call [OF h, of 250 False 7] by blast
qed

section \<open>Facts about the Health Monitor\<close>

lemma mark_metrics:
  "metrics (markServerUnhealthy mm n e now) n' =
     (if n' = n then map_option (\<lambda>m. m\<lparr>isHealthy := False\<rparr>) (metrics mm n') else metrics mm n')"
  "metrics (markServerHealthy mm n now) n' =
     (if n' = n then map_option (\<lambda>m. m\<lparr>isHealthy := True\<rparr>) (metrics mm n') else metrics mm n')"
  by (auto simp: markServerUnhealthy_def markServerHealthy_def store_update split: option.splits)

lemma mark_scores:
  "qualityScores (markServerUnhealthy mm n e now) n' =
     (case metrics mm n of
        None \<Rightarrow> qualityScores mm n'
      | Some m \<Rightarrow> if n' = n then Some (scoreOf n (m\<lparr>isHealthy := False\<rparr>) now) else qualityScores mm n')"
  "qualityScores (markServerHealthy mm n now) n' =
     (case metrics mm n of
        None \<Rightarrow> qualityScores mm n'
      | Some m \<Rightarrow> if n' = n then Some (scoreOf n (m\<lparr>isHealthy := True\<rparr>) now) else qualityScores mm n')"
  by (auto simp: markServerUnhealthy_def markServerHealthy_def store_update split: option.splits)

lemma mark_frame:
  "map_option requestFields (metrics (markServerUnhealthy mm n e now) n') = map_option requestFields (metrics mm n')"
  "map_option requestFields (metrics (markServerHealthy mm n now) n') = map_option requestFields (metrics mm n')"
  "map_option isHealthy (metrics (markServerUnhealthy mm n e now) n') =
     (if n' = n then map_option (\<lambda>_. False) (metrics mm n') else map_option isHealthy (metrics mm n'))"
  "map_option isHealthy (metrics (markServerHealthy mm n now) n') =
     (if n' = n then map_option (\<lambda>_. True) (metrics mm n') else map_option isHealthy (metrics mm n'))"
proof -
  show "map_option requestFields (metrics (markServerUnhealthy mm n e now) n') = map_option requestFields (metrics mm n')"
    by (cases "metrics mm n'") (auto simp: mark_metrics requestFields_def)
  show "map_option requestFields (metrics (markServerHealthy mm n now) n') = map_option requestFields (metrics mm n')"
    by (cases "metrics mm n'") (auto simp: mark_metrics requestFields_def)
  show "map_option isHealthy (metrics (markServerUnhealthy mm n e now) n') =
     (if n' = n then map_option (\<lambda>_. False) (metrics mm n') else map_option isHealthy (metrics mm n'))"
    by (cases "metrics mm n'") (auto simp: mark_metrics)
  show "map_option isHealthy (metrics (markServerHealthy mm n now) n') =
     (if n' = n then map_option (\<lambda>_. True) (metrics mm n') else map_option isHealthy (metrics mm n'))"
    by (cases "metrics mm n'") (auto simp: mark_metrics)
qed

lemma writeHealthCheck_state:
  "snd (writeHealthCheck r d s) =
     (let c = clientObjs s r in
      s\<lparr>healthChecks := (healthChecks s)(clientName c \<mapsto>
           \<lparr>hc_serverName = clientName c, hc_isHealthy = fst d, lastCheck = clock s,
            hc_errorMessage = snd d, hc_responseTime = Some 0\<rparr>),
        metricsManager := (if fst d then markServerHealthy (metricsManager s) (clientName c) (clock s)
                           else markServerUnhealthy (metricsManager s) (clientName c) (snd d) (clock s)),
        effects := effects s @ [if fst d then MarkHealthy (clientName c) else MarkUnhealthy (clientName c)]\<rparr>)"
  by (simp add: writeHealthCheck_def Let_def markHealthy_def markUnhealthy_def)

lemma health_frame:
  "map_option requestFields (metrics (metricsManager (snd (writeHealthCheck r d s))) n') =
     map_option requestFields (metrics (metricsManager s) n')"
  by (simp add: writeHealthCheck_state Let_def mark_frame)

lemma checkDecision_eq:
  "checkDecision c =
    (isConnected c \<and> \<not> (clientName c = ''Example Server 3'' \<and> truthy (lastError c)),
     if \<not> isConnected c then Some (orElse (lastError c) ''Connection lost'')
     else if clientName c = ''Example Server 3'' \<and> truthy (lastError c) then lastError c
     else None)"
  by (simp add: checkDecision_def)

lemma triggerDecision_eq:
  "triggerDecision c =
    (isConnected c,
     if \<not> isConnected c then Some (orElse (lastError c) ''Connection lost'') else None)"
  by (simp add: triggerDecision_def)

section \<open>Facts about the retry wrapper\<close>

lemma scripted_request: "scripted (request script) script"
  by (simp add: scripted_def request_def frame_def)

lemma scripted_toolCallOperation: "scripted (toolCallOperation c script) script"
  by (simp add: scripted_def toolCallOperation_def frame_def Let_def split: sum.splits)

lemma attemptsOn_simps [simp]:
  "attemptsOn c [] = []"
  "attemptsOn c (es @ fs) = attemptsOn c es @ attemptsOn c fs"
  "attemptsOn c (Attempt c' k # es) = (if c' = c then k # attemptsOn c es else attemptsOn c es)"
  "attemptsOn c (Backoff ms # es) = attemptsOn c es"
  "attemptsOn c (MarkUnhealthy n # es) = attemptsOn c es"
  "attemptsOn c (MarkHealthy n # es) = attemptsOn c es"
  by (simp_all add: attemptsOn_def)

lemma backoffs_simps [simp]:
  "backoffs [] = []"
  "backoffs (es @ fs) = backoffs es @ backoffs fs"
  "backoffs (Attempt c' k # es) = backoffs es"
  "backoffs (Backoff ms # es) = ms # backoffs es"
  "backoffs (MarkUnhealthy n # es) = backoffs es"
  "backoffs (MarkHealthy n # es) = backoffs es"
  by (simp_all add: backoffs_def)

lemma unhealthyMarks_simps [simp]:
  "unhealthyMarks c [] = 0"
  "unhealthyMarks c (es @ fs) = unhealthyMarks c es + unhealthyMarks c fs"
  "unhealthyMarks c (Attempt c' k # es) = unhealthyMarks c es"
  "unhealthyMarks c (Backoff ms # es) = unhealthyMarks c es"
  "unhealthyMarks c (MarkUnhealthy n # es) = (if n = c then Suc (unhealthyMarks c es) else unhealthyMarks c es)"
  "unhealthyMarks c (MarkHealthy n # es) = unhealthyMarks c es"
  by (simp_all add: unhealthyMarks_def)

lemma counterAfter_simps [simp]:
  "counterAfter n (Inr v) = 0"
  "counterAfter n (Inl m) = (if isConnectionError m then Suc n else n)"
  by (simp_all add: counterAfter_def)

lemma marksUnhealthy_simps [simp]:
  "marksUnhealthy n (Inr v) = False"
  "marksUnhealthy n (Inl m) = (isConnectionError m \<and> 4 \<le> n)"
  by (auto simp: marksUnhealthy_def)

lemma lastAttempt_bounds: "k \<le> lastAttempt n script k \<and> lastAttempt n script k \<le> k + n"
proof (induction n arbitrary: k)
  case 0
  show ?case by simp
next
  case (Suc n)
  have "Suc k \<le> lastAttempt n script (Suc k) \<and> lastAttempt n script (Suc k) \<le> Suc k + n"
    by (rule Suc.IH)
  then show ?case by (auto split: sum.splits)
qed

lemma noteFailure_frame [simp]: "frame (noteFailure c m s) = frame s"
  by (simp add: noteFailure_def frame_def Let_def markUnhealthy_def)

lemma noteFailure_count:
  "failureCount (noteFailure c m s) c = (if isConnectionError m then Suc (failureCount s c) else failureCount s c)"
  by (simp add: noteFailure_def failureCount_def Let_def markUnhealthy_def)

lemma noteFailure_others:
  "c' \<noteq> c \<Longrightarrow> failureCounts (noteFailure c m s) c' = failureCounts s c'"
  by (simp add: noteFailure_def Let_def markUnhealthy_def)

lemma noteFailure_effects:
  "effects (noteFailure c m s) =
     effects s @ (if isConnectionError m \<and> 4 \<le> failureCount s c \<and> healthChecks s c \<noteq> None
                  then [MarkUnhealthy c] else [])"
  by (auto simp: noteFailure_def failureCount_def Let_def markUnhealthy_def
      shouldMarkUnhealthy_def split: option.splits)

lemma attemptLoop_unfold:
  "k \<le> mr \<Longrightarrow>
   attemptLoop c op mr k le s =
     (case op k (s\<lparr>effects := effects s @ [Attempt c k]\<rparr>) of
        (Inr result, s') \<Rightarrow> (Inr result, s'\<lparr>failureCounts := (failureCounts s')(c \<mapsto> 0)\<rparr>)
      | (Inl errorMessage, s') \<Rightarrow>
          (let s'' = noteFailure c errorMessage s' in
           if k = mr then (Inl (Some errorMessage), s'')
           else if \<not> isConnectionError errorMessage then (Inl (Some errorMessage), s'')
           else attemptLoop c op mr (Suc k) (Some errorMessage) (sleep (2 ^ k * 1000) s'')))"
  by (subst attemptLoop.simps) simp

lemma observed_single [simp]: "observed script k k = [fst (script k)]"
  by (simp add: observed_def)

lemma observed_Cons: "k < l \<Longrightarrow> observed script k l = fst (script k) # observed script (Suc k) l"
  by (simp add: observed_def upt_conv_Cons)

lemma scripted_step:
  assumes "scripted op script"
  shows "fst (op k s) = fst (script k)" "frame (snd (op k s)) = frame s"
    "failureCounts (snd (op k s)) = failureCounts s" "effects (snd (op k s)) = effects s"
  using assms unfolding scripted_def by blast+

lemma frame_effects [simp]: "frame (s\<lparr>effects := es\<rparr>) = frame s"
  by (simp add: frame_def)

lemma frame_failureCounts [simp]: "frame (s\<lparr>failureCounts := fc\<rparr>) = frame s"
  by (simp add: frame_def)

lemma frame_sleep [simp]: "frame (sleep d s) = frame s"
  by (simp add: frame_def sleep_def)

lemma failureCount_cong: "failureCounts s' = failureCounts s \<Longrightarrow> failureCount s' c = failureCount s c"
  by (simp add: failureCount_def)

lemma healthChecks_frame: "frame s' = frame s \<Longrightarrow> healthChecks s' = healthChecks s"
  by (simp add: frame_def)

lemma loop_run:
  assumes sc: "scripted op script"
  shows "loopSpec c script k (lastAttempt n script k) s (attemptLoop c op (k + n) k le s)"
proof (induction n arbitrary: k le s)
  case 0
  define s0 where "s0 = s\<lparr>effects := effects s @ [Attempt c k]\<rparr>"
  define s1 where "s1 = snd (op k s0)"
  have op: "op k s0 = (fst (script k), s1)"
    using scripted_step(1) [OF sc, of k s0] by (simp add: s1_def prod_eq_iff)
  have s1: "frame s1 = frame s" "failureCounts s1 = failureCounts s"
    "effects s1 = effects s @ [Attempt c k]"
    using scripted_step(2-4) [OF sc, of k s0] by (simp_all add: s1_def s0_def)
  have fc1: "failureCount s1 c = failureCount s c"
    using s1(2) by (rule failureCount_cong)
  have hc1: "healthChecks s1 = healthChecks s"
    using s1(1) by (rule healthChecks_frame)
  show ?case
  proof (cases "fst (script k)")
    case (Inr v)
    then show ?thesis
      using op s1
      by (simp add: attemptLoop_unfold s0_def [symmetric] loopSpec_def failureCount_def)
  next
    case (Inl m)
    then show ?thesis
      using op s1 fc1 hc1
      by (simp add: attemptLoop_unfold s0_def [symmetric] loopSpec_def Let_def
          noteFailure_count noteFailure_others noteFailure_effects)
  qed
next
  case (Suc n)
  define s0 where "s0 = s\<lparr>effects := effects s @ [Attempt c k]\<rparr>"
  define s1 where "s1 = snd (op k s0)"
  have op: "op k s0 = (fst (script k), s1)"
    using scripted_step(1) [OF sc, of k s0] by (simp add: s1_def prod_eq_iff)
  have s1: "frame s1 = frame s" "failureCounts s1 = failureCounts s"
    "effects s1 = effects s @ [Attempt c k]"
    using scripted_step(2-4) [OF sc, of k s0] by (simp_all add: s1_def s0_def)
  have fc1: "failureCount s1 c = failureCount s c"
    using s1(2) by (rule failureCount_cong)
  have hc1: "healthChecks s1 = healthChecks s"
    using s1(1) by (rule healthChecks_frame)
  show ?case
  proof (cases "fst (script k)")
    case (Inr v)
    then show ?thesis
      using op s1
      by (simp add: attemptLoop_unfold s0_def [symmetric] loopSpec_def failureCount_def)
  next
    case (Inl m)
    show ?thesis
    proof (cases "isConnectionError m")
      case False
      with Inl show ?thesis
        using op s1 fc1 hc1
        by (simp add: attemptLoop_unfold s0_def [symmetric] loopSpec_def Let_def
            noteFailure_count noteFailure_others noteFailure_effects)
    next
      case True
      define s3 where "s3 = sleep (2 ^ k * 1000) (noteFailure c m s1)"
      define l where "l = lastAttempt n script (Suc k)"
      have l: "Suc k \<le> l" and last: "lastAttempt (Suc n) script k = l"
        using lastAttempt_bounds [of "Suc k" n script] Inl True by (simp_all add: l_def)
      have run: "attemptLoop c op (k + Suc n) k le s = attemptLoop c op (Suc k + n) (Suc k) (Some m) s3"
        using op Inl True by (simp add: attemptLoop_unfold s0_def [symmetric] Let_def s3_def)
      have ih: "loopSpec c script (Suc k) l s3 (attemptLoop c op (Suc k + n) (Suc k) (Some m) s3)"
        unfolding l_def by (rule Suc.IH)
      have s3: "frame s3 = frame s"
        "effects s3 = effects s @ [Attempt c k] @
           (if 4 \<le> failureCount s c \<and> healthChecks s c \<noteq> None then [MarkUnhealthy c] else []) @
           [Backoff (2 ^ k * 1000)]"
        "failureCount s3 c = Suc (failureCount s c)"
        "\<And>c'. c' \<noteq> c \<Longrightarrow> failureCounts s3 c' = failureCounts s c'"
      proof -
        show "frame s3 = frame s"
          by (simp add: s3_def s1(1))
        show "effects s3 = effects s @ [Attempt c k] @
           (if 4 \<le> failureCount s c \<and> healthChecks s c \<noteq> None then [MarkUnhealthy c] else []) @
           [Backoff (2 ^ k * 1000)]"
          using True by (simp add: s3_def sleep_def noteFailure_effects s1(3) fc1 hc1)
        have "failureCount s3 c = failureCount (noteFailure c m s1) c"
          by (rule failureCount_cong) (simp add: s3_def sleep_def)
        then show "failureCount s3 c = Suc (failureCount s c)"
          using True by (simp add: noteFailure_count fc1)
        show "failureCounts s3 c' = failureCounts s c'" if "c' \<noteq> c" for c'
          using that by (simp add: s3_def sleep_def noteFailure_others s1(2))
      qed
      have hc3: "healthChecks s3 = healthChecks s"
        using s3(1) by (rule healthChecks_frame)
      have upt: "[k..<Suc l] = k # [Suc k..<Suc l]" "[k..<l] = k # [Suc k..<l]"
        using l by (simp_all add: upt_conv_Cons)
      have obs: "observed script k l = Inl m # observed script (Suc k) l"
        using l Inl by (simp add: observed_Cons)
      show ?thesis
        unfolding last run
        using ih s3 hc3 True l
        by (simp add: loopSpec_def upt obs)
    qed
  qed
qed


lemma executeWithRetry_run:
  assumes "scripted op script"
  shows "loopSpec c script 0 (lastAttempt (retriesOf mr) script 0) s (executeWithRetry c op mr s)"
  using loop_run [OF assms, where c = c and k = 0 and n = "retriesOf mr" and le = None and s = s]
  by (simp add: executeWithRetry_def retriesOf_def)

lemma lastAttempt_retried:
  "k \<le> j \<Longrightarrow> j < lastAttempt n script k \<Longrightarrow> \<exists>m. fst (script j) = Inl m \<and> isConnectionError m"
proof (induction n arbitrary: k)
  case 0
  then show ?case by simp
next
  case (Suc n)
  show ?case
  proof (cases "fst (script k)")
    case (Inr v)
    with Suc.prems show ?thesis by simp
  next
    case (Inl m)
    show ?thesis
    proof (cases "isConnectionError m")
      case False
      with Inl Suc.prems show ?thesis by simp
    next
      case True
      show ?thesis
      proof (cases "j = k")
        case True
        with Inl \<open>isConnectionError m\<close> show ?thesis by simp
      next
        case False
        with Suc.prems Inl True have "Suc k \<le> j" "j < lastAttempt n script (Suc k)" by simp_all
        then show ?thesis by (rule Suc.IH)
      qed
    qed
  qed
qed

lemma lastAttempt_stops:
  "lastAttempt n script k < k + n \<Longrightarrow>
   (case fst (script (lastAttempt n script k)) of Inr v \<Rightarrow> True | Inl m \<Rightarrow> \<not> isConnectionError m)"
proof (induction n arbitrary: k)
  case 0
  then show ?case by simp
next
  case (Suc n)
  show ?case
  proof (cases "fst (script k)")
    case (Inr v)
    then show ?thesis by simp
  next
    case (Inl m)
    show ?thesis
    proof (cases "isConnectionError m")
      case False
      with Inl show ?thesis by simp
    next
      case True
      with Inl Suc.prems have "lastAttempt n script (Suc k) < Suc k + n" by simp
      then have "case fst (script (lastAttempt n script (Suc k))) of Inr v \<Rightarrow> True | Inl m \<Rightarrow> \<not> isConnectionError m"
        by (rule Suc.IH)
      with Inl True show ?thesis by simp
    qed
  qed
qed

lemma isConnectionError_iff:
  "isConnectionError m \<longleftrightarrow>
     (\<exists>p q. m = p @ ''Connection'' @ q) \<or> (\<exists>p q. m = p @ ''timeout'' @ q) \<or>
     (\<exists>p q. m = p @ ''ECONNREFUSED'' @ q) \<or> (\<exists>p q. m = p @ ''ENOTFOUND'' @ q)"
  unfolding isConnectionError_def str_includes_iff ..

lemma demote_state:
  "demote r m s =
     (let c = clientObjs s r in
      s\<lparr>clientObjs := (clientObjs s)(r := c\<lparr>isConnected := False, lastError := Some m\<rparr>),
        healthChecks := (healthChecks s)(clientName c \<mapsto>
           \<lparr>hc_serverName = clientName c, hc_isHealthy = False, lastCheck = clock s,
            hc_errorMessage = Some (orElse (Some m) ''Connection lost''), hc_responseTime = Some 0\<rparr>),
        metricsManager := markServerUnhealthy (metricsManager s) (clientName c)
                            (Some (orElse (Some m) ''Connection lost'')) (clock s),
        effects := effects s @ [MarkUnhealthy (clientName c)]\<rparr>)"
  by (simp add: demote_def triggerHealthCheck_def writeHealthCheck_state triggerDecision_def Let_def)

lemma effects_setTable [simp]: "effects (foldl (setTable kind r) s ds) = effects s"
  by (induction ds arbitrary: s) (simp_all add: setTable_def split: listKind.splits)

lemma attemptsOn_onListError [simp]:
  "attemptsOn c (effects (onListError kind r e s)) = attemptsOn c (effects s)"
  by (simp add: onListError_def demote_state Let_def split: listKind.splits)

lemma loopSpec_fields:
  assumes "loopSpec c script k l s out"
  shows "fst out = (case fst (script l) of Inr v \<Rightarrow> Inr v | Inl m \<Rightarrow> Inl (Some m))"
    "frame (snd out) = frame s"
    "attemptsOn c (effects (snd out)) = attemptsOn c (effects s) @ [k..<Suc l]"
    "backoffs (effects (snd out)) = backoffs (effects s) @ map (\<lambda>j. 2 ^ j * 1000) [k..<l]"
    "failureCount (snd out) c = foldl counterAfter (failureCount s c) (observed script k l)"
    "c' \<noteq> c \<Longrightarrow> failureCounts (snd out) c' = failureCounts s c'"
    "healthChecks s c \<noteq> None \<Longrightarrow>
         unhealthyMarks c (effects (snd out)) =
           unhealthyMarks c (effects s) + countMarks (failureCount s c) (observed script k l)"
  using assms unfolding loopSpec_def by blast+

lemma listTask_attempts:
  "attemptsOn (clientName (clientObjs s r)) (effects (snd (listTask kind script r s))) =
   attemptsOn (clientName (clientObjs s r)) (effects s) @ [0..<Suc (lastAttempt 2 script 0)]"
proof -
  let ?c = "clientName (clientObjs s r)"
  note run = loopSpec_fields [OF executeWithRetry_run [OF scripted_request, where c = ?c and script = script and mr = None and s = s]]
  obtain res s' where ex: "executeWithRetry ?c (request script) None s = (res, s')" by force
  with run(3) have "attemptsOn ?c (effects s') = attemptsOn ?c (effects s) @ [0..<Suc (lastAttempt 2 script 0)]"
    by (simp add: retriesOf_def)
  with ex show ?thesis
    by (cases res) (simp_all add: listTask_def Let_def)
qed

lemma rebuildTask_attempts:
  "attemptsOn (clientName (clientObjs s r)) (effects (snd (rebuildTask kind script r s))) =
   attemptsOn (clientName (clientObjs s r)) (effects s) @ [0..<Suc (lastAttempt 2 script 0)]"
proof -
  let ?c = "clientName (clientObjs s r)"
  note run = loopSpec_fields [OF executeWithRetry_run [OF scripted_request, where c = ?c and script = script and mr = None and s = s]]
  obtain res s' where ex: "executeWithRetry ?c (request script) None s = (res, s')" by force
  with run(3) have "attemptsOn ?c (effects s') = attemptsOn ?c (effects s) @ [0..<Suc (lastAttempt 2 script 0)]"
    by (simp add: retriesOf_def)
  with ex show ?thesis
    by (cases res) (simp_all add: rebuildTask_def Let_def)
qed

lemma dispatchGetPrompt_attempts:
  "attemptsOn (clientName (clientObjs s r)) (effects (snd (dispatchGetPrompt r script s))) =
   attemptsOn (clientName (clientObjs s r)) (effects s) @ [0..<Suc (lastAttempt 2 script 0)]"
proof -
  let ?c = "clientName (clientObjs s r)"
  note run = loopSpec_fields [OF executeWithRetry_run [OF scripted_request, where c = ?c and script = script and mr = None and s = s]]
  obtain res s' where ex: "executeWithRetry ?c (request script) None s = (res, s')" by force
  with run(3) have "attemptsOn ?c (effects s') = attemptsOn ?c (effects s) @ [0..<Suc (lastAttempt 2 script 0)]"
    by (simp add: retriesOf_def)
  with ex show ?thesis
    by (cases res) (simp_all add: dispatchGetPrompt_def Let_def demote_state)
qed

lemma dispatchReadResource_attempts:
  "attemptsOn (clientName (clientObjs s r)) (effects (snd (dispatchReadResource r script s))) =
   attemptsOn (clientName (clientObjs s r)) (effects s) @ [0..<Suc (lastAttempt 2 script 0)]"
proof -
  let ?c = "clientName (clientObjs s r)"
  note run = loopSpec_fields [OF executeWithRetry_run [OF scripted_request, where c = ?c and script = script and mr = None and s = s]]
  obtain res s' where ex: "executeWithRetry ?c (request script) None s = (res, s')" by force
  with run(3) have "attemptsOn ?c (effects s') = attemptsOn ?c (effects s) @ [0..<Suc (lastAttempt 2 script 0)]"
    by (simp add: retriesOf_def)
  with ex show ?thesis
    by (cases res) (simp_all add: dispatchReadResource_def Let_def demote_state)
qed

lemma dispatchToolCall_attempts:
  "attemptsOn (clientName (clientObjs s r)) (effects (snd (dispatchToolCall t r script s))) =
   attemptsOn (clientName (clientObjs s r)) (effects s) @ [0..<Suc (lastAttempt 1 script 0)]"
proof -
  let ?c = "clientName (clientObjs s r)"
  note run = loopSpec_fields [OF executeWithRetry_run [OF scripted_toolCallOperation [of ?c script], where c = ?c and mr = "Some 1" and s = s]]
  obtain res s' where ex: "executeWithRetry ?c (toolCallOperation ?c script) (Some 1) s = (res, s')" by force
  with run(3) have "attemptsOn ?c (effects s') = attemptsOn ?c (effects s) @ [0..<Suc (lastAttempt 1 script 0)]"
    by (simp add: retriesOf_def)
  with ex show ?thesis
    by (cases res) (simp_all add: dispatchToolCall_def Let_def demote_state)
qed


lemma createServer_one:
  "createServer [c] now =
     \<lparr>clientObjs = (\<lambda>r. if r < 1 then [c] ! r
                          else \<lparr>clientName = [], isConnected = False, lastError = None,
                                lastErrorLogged = False\<rparr>),
        connectedClients = [0],
        metricsManager = initializeServer newMetricsManager (clientName c) now,
        healthChecks = [clientName c \<mapsto> \<lparr>hc_serverName = clientName c, hc_isHealthy = True,
                 lastCheck = now, hc_errorMessage = None, hc_responseTime = None\<rparr>],
        toolToClientMap = Map.empty,
        resourceToClientMap = Map.empty,
        promptToClientMap = Map.empty,
        failureCounts = Map.empty,
        clock = now,
        effects = []\<rparr>"
  by (simp add: createServer_def startMonitoring_def)

lemma exampleProxy_fields:
  "clientObjs exampleProxy 0 = exampleClient"
  "connectedClients exampleProxy = [0]"
  "healthChecks exampleProxy ''A'' = Some \<lparr>hc_serverName = ''A'', hc_isHealthy = True,
                 lastCheck = 0, hc_errorMessage = None, hc_responseTime = None\<rparr>"
  "toolToClientMap exampleProxy = Map.empty"
  "resourceToClientMap exampleProxy = Map.empty"
  "promptToClientMap exampleProxy = Map.empty"
  "failureCounts exampleProxy = Map.empty"
  "effects exampleProxy = []"
  "clock exampleProxy = 0"
  "metricsManager exampleProxy = initializeServer newMetricsManager ''A'' 0"
  by (simp_all add: exampleProxy_def createServer_one exampleClient_def)


lemma lastAttempt_first:
  "k \<le> j \<Longrightarrow> j \<le> k + n \<Longrightarrow>
   (\<forall>i. k \<le> i \<and> i < j \<longrightarrow> (\<exists>e. fst (script i) = Inl e \<and> isConnectionError e)) \<Longrightarrow>
   j = k + n \<or> (case fst (script j) of Inr v \<Rightarrow> True | Inl e \<Rightarrow> \<not> isConnectionError e) \<Longrightarrow>
   lastAttempt n script k = j"
proof (induction n arbitrary: k)
  case 0
  then show ?case by simp
next
  case (Suc n)
  show ?case
  proof (cases "j = k")
    case True
    with Suc.prems show ?thesis by (auto split: sum.splits)
  next
    case False
    with Suc.prems have kj: "Suc k \<le> j" "j \<le> Suc k + n" by simp_all
    from Suc.prems(3) False Suc.prems(1) obtain e where e: "fst (script k) = Inl e" "isConnectionError e"
      by (metis le_neq_implies_less order_refl)
    have "lastAttempt n script (Suc k) = j"
    proof (rule Suc.IH [OF kj])
      show "\<forall>i. Suc k \<le> i \<and> i < j \<longrightarrow> (\<exists>e. fst (script i) = Inl e \<and> isConnectionError e)"
        using Suc.prems(3) by auto
      show "j = Suc k + n \<or> (case fst (script j) of Inr v \<Rightarrow> True | Inl e \<Rightarrow> \<not> isConnectionError e)"
        using Suc.prems(4) by auto
    qed
    with e show ?thesis by simp
  qed
qed

section \<open>The claims about the retry wrapper\<close>

text \<open>
  Claim C1. The retry wrapper classifies a failed attempt by its message alone: the
  error is connection-class exactly when the message contains \<^verbatim>\<open>Connection\<close>,
  \<^verbatim>\<open>timeout\<close>, \<^verbatim>\<open>ECONNREFUSED\<close> or \<^verbatim>\<open>ENOTFOUND\<close>, and anything else is handled as a
  business error. With \<open>l\<close> the attempt the wrapper is specified to stop at, the wrapper
  invokes the operation once for each of the attempts \<open>0, \<dots>, l\<close> and no more, which
  are at most \<open>maxRetries + 1\<close>; every attempt before \<open>l\<close> failed with a connection-class
  error; when retries were left, attempt \<open>l\<close> succeeded or failed with a business
  error; and the wrapper returns the result of attempt \<open>l\<close> or throws its error
  unchanged. A call that leaves \<^verbatim>\<open>maxRetries\<close> out has 2 retries; the tools/call handler
  passes 1, and the prompts/get, resources/read, list and rebuild paths use the
  default.
\<close>

theorem retry_wrapper_attempts:
  fixes script :: "'r script" and listing :: "descriptor list script"
  assumes "op = request script \<or> op = toolCallOperation c script"
  shows
    "(isConnectionError m \<longleftrightarrow>
        (\<exists>p q. m = p @ ''Connection'' @ q) \<or> (\<exists>p q. m = p @ ''timeout'' @ q) \<or>
        (\<exists>p q. m = p @ ''ECONNREFUSED'' @ q) \<or> (\<exists>p q. m = p @ ''ENOTFOUND'' @ q)) \<and>
     (let l = lastAttempt (retriesOf mr) script 0; out = executeWithRetry c op mr s in
        attemptsOn c (effects (snd out)) = attemptsOn c (effects s) @ [0..<Suc l] \<and>
        length [0..<Suc l] \<le> retriesOf mr + 1 \<and>
        (\<forall>j<l. \<exists>e. fst (script j) = Inl e \<and> isConnectionError e) \<and>
        (l < retriesOf mr \<longrightarrow> (case fst (script l) of Inr v \<Rightarrow> True | Inl e \<Rightarrow> \<not> isConnectionError e)) \<and>
        fst out = (case fst (script l) of Inr v \<Rightarrow> Inr v | Inl e \<Rightarrow> Inl (Some e))) \<and>
     retriesOf None = 2 \<and>
     attemptsOn (clientName (clientObjs s r)) (effects (snd (dispatchToolCall t r script s))) =
       attemptsOn (clientName (clientObjs s r)) (effects s) @ [0..<Suc (lastAttempt 1 script 0)] \<and>
     attemptsOn (clientName (clientObjs s r)) (effects (snd (dispatchGetPrompt r script s))) =
       attemptsOn (clientName (clientObjs s r)) (effects s) @ [0..<Suc (lastAttempt 2 script 0)] \<and>
     attemptsOn (clientName (clientObjs s r)) (effects (snd (dispatchReadResource r script s))) =
       attemptsOn (clientName (clientObjs s r)) (effects s) @ [0..<Suc (lastAttempt 2 script 0)] \<and>
     attemptsOn (clientName (clientObjs s r)) (effects (snd (listTask kind listing r s))) =
       attemptsOn (clientName (clientObjs s r)) (effects s) @ [0..<Suc (lastAttempt 2 listing 0)] \<and>
     attemptsOn (clientName (clientObjs s r)) (effects (snd (rebuildTask kind listing r s))) =
       attemptsOn (clientName (clientObjs s r)) (effects s) @ [0..<Suc (lastAttempt 2 listing 0)]"
proof -
  have sc: "scripted op script"
    using assms scripted_request scripted_toolCallOperation by auto
  note run = loopSpec_fields [OF executeWithRetry_run [OF sc, where c = c and mr = mr and s = s]]
  have bound: "lastAttempt (retriesOf mr) script 0 \<le> retriesOf mr"
    using lastAttempt_bounds [of 0 "retriesOf mr" script] by simp
  have retried: "\<forall>j<lastAttempt (retriesOf mr) script 0. \<exists>e. fst (script j) = Inl e \<and> isConnectionError e"
    using lastAttempt_retried [of 0 _ "retriesOf mr" script] by simp
  have stops: "lastAttempt (retriesOf mr) script 0 < retriesOf mr \<longrightarrow>
      (case fst (script (lastAttempt (retriesOf mr) script 0)) of Inr v \<Rightarrow> True | Inl e \<Rightarrow> \<not> isConnectionError e)"
    using lastAttempt_stops [of "retriesOf mr" script 0] by simp
  have wrapper: "let l = lastAttempt (retriesOf mr) script 0; out = executeWithRetry c op mr s in
        attemptsOn c (effects (snd out)) = attemptsOn c (effects s) @ [0..<Suc l] \<and>
        length [0..<Suc l] \<le> retriesOf mr + 1 \<and>
        (\<forall>j<l. \<exists>e. fst (script j) = Inl e \<and> isConnectionError e) \<and>
        (l < retriesOf mr \<longrightarrow> (case fst (script l) of Inr v \<Rightarrow> True | Inl e \<Rightarrow> \<not> isConnectionError e)) \<and>
        fst out = (case fst (script l) of Inr v \<Rightarrow> Inr v | Inl e \<Rightarrow> Inl (Some e))"
    unfolding Let_def using run(1) run(3) bound retried stops by simp
  have dflt: "retriesOf None = 2"
    by (simp add: retriesOf_def)
  show ?thesis
    using isConnectionError_iff [of m] wrapper dflt dispatchToolCall_attempts [of s r t script]
      dispatchGetPrompt_attempts [of s r script] dispatchReadResource_attempts [of s r script]
      listTask_attempts [of s r kind listing] rebuildTask_attempts [of s r kind listing]
    by blast
qed

theorem retry_wrapper_attempts_witness:
  "fst (executeWithRetry ''A'' (request exampleScript) None exampleProxy) = Inr ''done'' \<and>
   attemptsOn ''A'' (effects (snd (executeWithRetry ''A'' (request exampleScript) None exampleProxy))) = [0, 1]"
proof -
  have l: "lastAttempt (retriesOf None) exampleScript 0 = 1"
    by (simp add: retriesOf_def numeral_2_eq_2 exampleScript_def isConnectionError_def)
  have h: "request exampleScript = request exampleScript \<or> request exampleScript = toolCallOperation ''A'' exampleScript"
    by simp
  show ?thesis
    using retry_wrapper_attempts [OF h, where mr = None and s = exampleProxy]
    by (simp add: l Let_def exampleProxy_fields exampleScript_def)
qed


section \<open>The claims about health checks\<close>

lemma checkServerHealth_frame:
  "map_option requestFields (metrics (metricsManager (checkServerHealth r s)) n') =
     map_option requestFields (metrics (metricsManager s) n')"
  by (simp add: checkServerHealth_def health_frame)

lemma performHealthChecks_frame:
  "map_option requestFields (metrics (metricsManager (foldl (\<lambda>s r. checkServerHealth r s) s rs)) n') =
     map_option requestFields (metrics (metricsManager s) n')"
  by (induction rs arbitrary: s) (simp_all add: checkServerHealth_frame)

text \<open>
  Claim C7. \<^verbatim>\<open>markServerHealthy\<close> and \<^verbatim>\<open>markServerUnhealthy\<close> leave \<open>errorCount\<close>,
  \<open>totalRequests\<close>, \<open>successRate\<close>, \<open>responseTime\<close>, \<open>loadFactor\<close> and \<open>lastUsed\<close> of every
  record as they were, set \<open>isHealthy\<close> of the named record only, and store the quality
  score recomputed from the changed record. The same six fields are unchanged by a
  health check: the periodic check of one client, the manual trigger, and the periodic
  check of all clients.
\<close>

theorem health_marks_frame:
  "map_option requestFields (metrics (markServerUnhealthy mm n e now) n') =
     map_option requestFields (metrics mm n') \<and>
   map_option requestFields (metrics (markServerHealthy mm n now) n') =
     map_option requestFields (metrics mm n') \<and>
   map_option isHealthy (metrics (markServerUnhealthy mm n e now) n') =
     (if n' = n then map_option (\<lambda>_. False) (metrics mm n') else map_option isHealthy (metrics mm n')) \<and>
   map_option isHealthy (metrics (markServerHealthy mm n now) n') =
     (if n' = n then map_option (\<lambda>_. True) (metrics mm n') else map_option isHealthy (metrics mm n')) \<and>
   qualityScores (markServerUnhealthy mm n e now) n =
     (case metrics mm n of
        None \<Rightarrow> qualityScores mm n
      | Some m \<Rightarrow> Some (scoreOf n (m\<lparr>isHealthy := False\<rparr>) now)) \<and>
   qualityScores (markServerHealthy mm n now) n =
     (case metrics mm n of
        None \<Rightarrow> qualityScores mm n
      | Some m \<Rightarrow> Some (scoreOf n (m\<lparr>isHealthy := True\<rparr>) now)) \<and>
   map_option requestFields (metrics (metricsManager (checkServerHealth r s)) n') =
     map_option requestFields (metrics (metricsManager s) n') \<and>
   map_option requestFields (metrics (metricsManager (snd (triggerHealthCheck r s))) n') =
     map_option requestFields (metrics (metricsManager s) n') \<and>
   map_option requestFields (metrics (metricsManager (performHealthChecks s)) n') =
     map_option requestFields (metrics (metricsManager s) n') \<and>
   requestFields m =
     (errorCount m, totalRequests m, successRate m, responseTime m, loadFactor m, lastUsed m)"
  by (simp add: mark_frame mark_scores checkServerHealth_frame triggerHealthCheck_def health_frame
      performHealthChecks_def performHealthChecks_frame requestFields_def split: option.splits)

text \<open>
  Claim C9, as amended. A health check finds a client that is not connected unhealthy,
  with the message \<^verbatim>\<open>lastError\<close>, or \<^verbatim>\<open>Connection lost\<close> when there is none. A
  connected client is found unhealthy only by the periodic check, only when its name is
  \<^verbatim>\<open>Example Server 3\<close> and its \<^verbatim>\<open>lastError\<close> is not empty; the manual trigger finds
  every connected client healthy. Both write the health-check record and call
  \<^verbatim>\<open>markServerHealthy\<close> or \<^verbatim>\<open>markServerUnhealthy\<close> accordingly.
\<close>

theorem health_check_decision:
  "(let c = clientObjs s r;
        healthy = (isConnected c \<and> \<not> (clientName c = ''Example Server 3'' \<and> truthy (lastError c)));
        msg = (if \<not> isConnected c then Some (orElse (lastError c) ''Connection lost'')
               else if healthy then None else lastError c);
        s' = checkServerHealth r s
    in healthChecks s' = (healthChecks s)(clientName c \<mapsto>
           \<lparr>hc_serverName = clientName c, hc_isHealthy = healthy, lastCheck = clock s,
            hc_errorMessage = msg, hc_responseTime = Some 0\<rparr>) \<and>
       effects s' = effects s @ [if healthy then MarkHealthy (clientName c) else MarkUnhealthy (clientName c)] \<and>
       metricsManager s' =
         (if healthy then markServerHealthy (metricsManager s) (clientName c) (clock s)
          else markServerUnhealthy (metricsManager s) (clientName c) msg (clock s))) \<and>
   (let c = clientObjs s r;
        healthy = isConnected c;
        msg = (if \<not> isConnected c then Some (orElse (lastError c) ''Connection lost'') else None);
        s' = snd (triggerHealthCheck r s)
    in healthChecks s' = (healthChecks s)(clientName c \<mapsto>
           \<lparr>hc_serverName = clientName c, hc_isHealthy = healthy, lastCheck = clock s,
            hc_errorMessage = msg, hc_responseTime = Some 0\<rparr>) \<and>
       healthChecks s' (clientName c) = Some (fst (triggerHealthCheck r s)) \<and>
       effects s' = effects s @ [if healthy then MarkHealthy (clientName c) else MarkUnhealthy (clientName c)] \<and>
       metricsManager s' =
         (if healthy then markServerHealthy (metricsManager s) (clientName c) (clock s)
          else markServerUnhealthy (metricsManager s) (clientName c) msg (clock s)))"
  by (simp add: checkServerHealth_def triggerHealthCheck_def writeHealthCheck_state
      checkDecision_eq triggerDecision_eq Let_def)
     (simp add: writeHealthCheck_def Let_def)

text \<open>
  Claim C9 as stated fails: a connected client named \<open>A\<close> whose \<^verbatim>\<open>lastError\<close> is not
  empty is found healthy by the periodic check and by the manual trigger.
\<close>

theorem health_check_counterexample:
  "isConnected staleErrorClient \<and> truthy (lastError staleErrorClient) \<and>
   map_option hc_isHealthy (healthChecks (checkServerHealth 0 (createServer [staleErrorClient] 0)) ''A'') = Some True \<and>
   map_option hc_isHealthy (healthChecks (snd (triggerHealthCheck 0 (createServer [staleErrorClient] 0))) ''A'') = Some True \<and>
   effects (checkServerHealth 0 (createServer [staleErrorClient] 0)) = [MarkHealthy ''A''] \<and>
   effects (snd (triggerHealthCheck 0 (createServer [staleErrorClient] 0))) = [MarkHealthy ''A'']"
  by (simp add: createServer_one checkServerHealth_def triggerHealthCheck_def writeHealthCheck_state
      checkDecision_eq triggerDecision_eq staleErrorClient_def truthy_def Let_def)

section \<open>The claims about the list handlers\<close>

lemma executeWithRetry_request:
  "fst (executeWithRetry c (request script) None s) = retryResult 2 script"
  "frame (snd (executeWithRetry c (request script) None s)) = frame s"
  using loopSpec_fields(1,2) [OF executeWithRetry_run [OF scripted_request, where c = c and script = script and mr = None and s = s]]
  by (simp_all add: retryResult_def retriesOf_def)


lemma frame_tables: "frame s' = frame s \<Longrightarrow> tableOf kind s' = tableOf kind s \<and> tables s' = tables s \<and> names s' = names s"
  by (auto simp: frame_def tableOf_def tables_def names_def split: listKind.splits)

lemma setTable_fold:
  "kind \<noteq> ResourceTemplates \<Longrightarrow>
   dom (tableOf kind (foldl (setTable kind r) s ds)) = dom (tableOf kind s) \<union> entityKey kind ` set ds"
  by (induction ds arbitrary: s)
     (auto simp: setTable_def tableOf_def entityKey_def split: listKind.splits)

lemma setTable_templates: "foldl (setTable ResourceTemplates r) s ds = s"
  by (induction ds arbitrary: s) (simp_all add: setTable_def)

lemma setTable_names1: "names (setTable kind r s d) = names s"
  by (simp add: setTable_def names_def split: listKind.splits)

lemma setTable_names [simp]: "names (foldl (setTable kind r) s ds) = names s"
  by (induction ds arbitrary: s) (simp_all add: setTable_names1)

lemma demote_names [simp]: "names (demote r m s) = names s"
  by (auto simp: demote_state names_def Let_def)

lemma demote_tables [simp]: "tables (demote r m s) = tables s" "tableOf kind (demote r m s) = tableOf kind s"
  by (simp_all add: demote_state tables_def tableOf_def Let_def split: listKind.splits)

lemma onListError_names [simp]: "names (onListError kind r e s) = names s"
  by (simp add: onListError_def Let_def split: listKind.splits)

lemma onListError_tables [simp]:
  "tables (onListError kind r e s) = tables s" "tableOf kind' (onListError kind r e s) = tableOf kind' s"
  by (simp_all add: onListError_def Let_def split: listKind.splits)

lemma listTask_spec:
  "fst (listTask kind script r s) =
     Inr (case retryResult 2 script of Inr ds \<Rightarrow> map (withSource kind (names s r)) ds | Inl e \<Rightarrow> [])"
  "names (snd (listTask kind script r s)) = names s"
  "kind \<noteq> ResourceTemplates \<Longrightarrow>
     dom (tableOf kind (snd (listTask kind script r s))) = dom (tableOf kind s) \<union> listed kind script"
  "kind = ResourceTemplates \<Longrightarrow> tables (snd (listTask kind script r s)) = tables s"
proof -
  let ?c = "clientName (clientObjs s r)"
  define s1 where "s1 = snd (executeWithRetry ?c (request script) None s)"
  have ex: "executeWithRetry ?c (request script) None s = (retryResult 2 script, s1)"
    using executeWithRetry_request(1) [of ?c script s] by (simp add: s1_def prod_eq_iff)
  have fr: "frame s1 = frame s"
    using executeWithRetry_request(2) [of ?c script s] by (simp add: s1_def)
  note f1 = frame_tables [OF fr]
  show "fst (listTask kind script r s) =
     Inr (case retryResult 2 script of Inr ds \<Rightarrow> map (withSource kind (names s r)) ds | Inl e \<Rightarrow> [])"
    using ex by (cases "retryResult 2 script") (simp_all add: listTask_def Let_def names_def)
  show "names (snd (listTask kind script r s)) = names s"
    using ex f1 by (cases "retryResult 2 script") (simp_all add: listTask_def Let_def)
  show "dom (tableOf kind (snd (listTask kind script r s))) = dom (tableOf kind s) \<union> listed kind script"
    if "kind \<noteq> ResourceTemplates"
    using ex f1 that
    by (cases "retryResult 2 script") (simp_all add: listTask_def Let_def setTable_fold listed_def)
  show "tables (snd (listTask kind script r s)) = tables s" if "kind = ResourceTemplates"
    using ex f1 that
    by (cases "retryResult 2 script") (simp_all add: listTask_def Let_def setTable_templates)
qed

lemma allSettled_listTask:
  "fst (allSettled (map (\<lambda>r. listTask kind (upstream r) r) rs) s) =
     map (\<lambda>r. Inr (case retryResult 2 (upstream r) of
                     Inr ds \<Rightarrow> map (withSource kind (names s r)) ds | Inl e \<Rightarrow> [])) rs \<and>
   names (snd (allSettled (map (\<lambda>r. listTask kind (upstream r) r) rs) s)) = names s \<and>
   (kind \<noteq> ResourceTemplates \<longrightarrow>
      dom (tableOf kind (snd (allSettled (map (\<lambda>r. listTask kind (upstream r) r) rs) s))) =
        dom (tableOf kind s) \<union> (\<Union>r\<in>set rs. listed kind (upstream r))) \<and>
   (kind = ResourceTemplates \<longrightarrow>
      tables (snd (allSettled (map (\<lambda>r. listTask kind (upstream r) r) rs) s)) = tables s)"
proof (induction rs arbitrary: s)
  case Nil
  show ?case by simp
next
  case (Cons r rs)
  obtain v s1 where t: "listTask kind (upstream r) r s = (v, s1)" by force
  note task = listTask_spec [where kind = kind and script = "upstream r" and r = r and s = s,
      unfolded t fst_conv snd_conv]
  obtain vs s2 where rest: "allSettled (map (\<lambda>r. listTask kind (upstream r) r) rs) s1 = (vs, s2)" by force
  note ih = Cons.IH [of s1, unfolded rest fst_conv snd_conv task(2)]
  have step: "allSettled (map (\<lambda>r. listTask kind (upstream r) r) (r # rs)) s = (v # vs, s2)"
    using t rest by simp
  show ?case
    unfolding step fst_conv snd_conv
    using ih task by (simp add: Un_assoc)
qed


lemma setTable_apply:
  "kind \<noteq> ResourceTemplates \<Longrightarrow>
   tableOf kind (setTable kind r s d) n = (if n = entityKey kind d then Some r else tableOf kind s n)"
  by (auto simp: setTable_def tableOf_def entityKey_def split: listKind.splits)

lemma setTable_fold_apply:
  "kind \<noteq> ResourceTemplates \<Longrightarrow>
   tableOf kind (foldl (setTable kind r) s ds) n =
     (if n \<in> entityKey kind ` set ds then Some r else tableOf kind s n)"
  by (induction ds arbitrary: s) (auto simp: setTable_apply)

lemma listTask_table:
  assumes "kind \<noteq> ResourceTemplates"
  shows "tableOf kind (snd (listTask kind script r s)) n =
     (if n \<in> listed kind script then Some r else tableOf kind s n)"
proof -
  let ?c = "clientName (clientObjs s r)"
  define s1 where "s1 = snd (executeWithRetry ?c (request script) None s)"
  have ex: "executeWithRetry ?c (request script) None s = (retryResult 2 script, s1)"
    using executeWithRetry_request(1) [of ?c script s] by (simp add: s1_def prod_eq_iff)
  have fr: "frame s1 = frame s"
    using executeWithRetry_request(2) [of ?c script s] by (simp add: s1_def)
  note f1 = frame_tables [OF fr]
  show ?thesis
    using ex f1 assms
    by (cases "retryResult 2 script") (simp_all add: listTask_def Let_def setTable_fold_apply listed_def)
qed

lemma allSettled_owner:
  assumes "kind \<noteq> ResourceTemplates"
    and "tableOf kind (snd (allSettled (map (\<lambda>r. listTask kind (upstream r) r) rs) s)) n = Some r'"
  shows "tableOf kind s n = Some r' \<or> (r' \<in> set rs \<and> n \<in> listed kind (upstream r'))"
  using assms(2)
proof (induction rs arbitrary: s)
  case Nil
  then show ?case by simp
next
  case (Cons r rs)
  define s1 where "s1 = snd (listTask kind (upstream r) r s)"
  have step: "snd (allSettled (map (\<lambda>r. listTask kind (upstream r) r) (r # rs)) s) =
      snd (allSettled (map (\<lambda>r. listTask kind (upstream r) r) rs) s1)"
    by (simp add: s1_def split: prod.splits)
  from Cons.prems have "tableOf kind (snd (allSettled (map (\<lambda>r. listTask kind (upstream r) r) rs) s1)) n = Some r'"
    by (simp only: step)
  then have "tableOf kind s1 n = Some r' \<or> (r' \<in> set rs \<and> n \<in> listed kind (upstream r'))"
    by (rule Cons.IH)
  then show ?case
    using listTask_table [OF assms(1), of "upstream r" r s n]
    by (auto simp: s1_def split: if_splits)
qed

lemma tableOf_clearTable [simp]:
  "kind \<noteq> ResourceTemplates \<Longrightarrow> tableOf kind (clearTable kind s) = Map.empty"
  by (auto simp: tableOf_def clearTable_def split: listKind.splits)

lemma clearTable_other [simp]:
  "names (clearTable kind s) = names s" "getHealthyClients (clearTable kind s) = getHealthyClients s"
  "clearTable ResourceTemplates s = s"
  by (simp_all add: names_def clearTable_def getHealthyClients_def split: listKind.splits)

lemma listHandler_unfold:
  "listHandler kind upstream s =
     (Inr (collect (fst (allSettled (map (\<lambda>r. listTask kind (upstream r) r) (getHealthyClients s)) (clearTable kind s)))),
      snd (allSettled (map (\<lambda>r. listTask kind (upstream r) r) (getHealthyClients s)) (clearTable kind s)))"
  by (simp add: listHandler_def Let_def collect_def split: prod.splits)

lemma collect_map:
  "collect (map (\<lambda>r. Inr (f r)) rs) = concat (map f rs)"
  by (simp add: collect_def comp_def)

lemma listHandler_templates:
  "tables (snd (listHandler ResourceTemplates upstream s)) = tables s"
  using allSettled_listTask [of ResourceTemplates upstream "getHealthyClients s" s]
  by (simp add: listHandler_unfold)

lemma exampleProxy_healthy: "getHealthyClients exampleProxy = [0]"
  by (simp add: getHealthyClients_def exampleProxy_fields exampleClient_def)

lemma toolsUpstream_result:
  "retryResult 2 (toolsUpstream r) = Inr [\<lparr>d_name = ''t1'', d_uri = [], d_description = Some ''does X''\<rparr>]"
  by (simp add: retryResult_def toolsUpstream_def numeral_2_eq_2)

text \<open>
  Claim C3, as amended. Every list handler sends its request to every upstream of
  \<^verbatim>\<open>connectedClients\<close> that is connected, and returns a listing, never an error: the
  descriptors of the upstreams whose request succeeded, in the order of the upstreams,
  whatever happened to the others, and the empty listing when no upstream is
  connected. After tools/list, prompts/list and resources/list the routing table of
  that kind holds exactly the names listed by the upstreams that succeeded on that
  call, each routed to a connected upstream that listed it. resources/templates/list
  has no routing table: it leaves the three tables as they were.
\<close>

theorem list_handler_routing:
  "(let healthyClients = getHealthyClients s; out = listHandler kind upstream s in
      fst out = Inr (concat (map (\<lambda>r. case retryResult 2 (upstream r) of
                                      Inr ds \<Rightarrow> map (withSource kind (clientName (clientObjs s r))) ds
                                    | Inl e \<Rightarrow> []) healthyClients)) \<and>
      (healthyClients = [] \<longrightarrow> fst out = Inr []) \<and>
      (kind = Tools \<longrightarrow>
         dom (toolToClientMap (snd out)) = (\<Union>r\<in>set healthyClients. listed kind (upstream r)) \<and>
         (\<forall>n r. toolToClientMap (snd out) n = Some r \<longrightarrow>
                r \<in> set healthyClients \<and> n \<in> listed kind (upstream r))) \<and>
      (kind = Prompts \<longrightarrow>
         dom (promptToClientMap (snd out)) = (\<Union>r\<in>set healthyClients. listed kind (upstream r)) \<and>
         (\<forall>n r. promptToClientMap (snd out) n = Some r \<longrightarrow>
                r \<in> set healthyClients \<and> n \<in> listed kind (upstream r))) \<and>
      (kind = Resources \<longrightarrow>
         dom (resourceToClientMap (snd out)) = (\<Union>r\<in>set healthyClients. listed kind (upstream r)) \<and>
         (\<forall>n r. resourceToClientMap (snd out) n = Some r \<longrightarrow>
                r \<in> set healthyClients \<and> n \<in> listed kind (upstream r))) \<and>
      (kind = ResourceTemplates \<longrightarrow>
         toolToClientMap (snd out) = toolToClientMap s \<and>
         promptToClientMap (snd out) = promptToClientMap s \<and>
         resourceToClientMap (snd out) = resourceToClientMap s)) \<and>
   set (getHealthyClients s) = {r \<in> set (connectedClients s). isConnected (clientObjs s r)} \<and>
   listed kind script =
     (case retryResult 2 script of Inr ds \<Rightarrow> entityKey kind ` set ds | Inl e \<Rightarrow> {})"
proof -
  let ?rs = "getHealthyClients s"
  let ?s0 = "clearTable kind s"
  let ?run = "allSettled (map (\<lambda>r. listTask kind (upstream r) r) ?rs) ?s0"
  note all = allSettled_listTask [of kind upstream ?rs ?s0, unfolded clearTable_other(1)]
  have out: "listHandler kind upstream s = (Inr (collect (fst ?run)), snd ?run)"
    by (rule listHandler_unfold)
  have res: "fst (listHandler kind upstream s) =
      Inr (concat (map (\<lambda>r. case retryResult 2 (upstream r) of
                              Inr ds \<Rightarrow> map (withSource kind (clientName (clientObjs s r))) ds
                            | Inl e \<Rightarrow> []) ?rs))"
  proof -
    have "fst (listHandler kind upstream s) =
      Inr (concat (map (\<lambda>r. case retryResult 2 (upstream r) of
                              Inr ds \<Rightarrow> map (withSource kind (names s r)) ds
                            | Inl e \<Rightarrow> []) ?rs))"
      using all by (simp add: out collect_map)
    then show ?thesis unfolding names_def .
  qed
  have dom: "dom (tableOf kind (snd ?run)) = (\<Union>r\<in>set ?rs. listed kind (upstream r))"
    if "kind \<noteq> ResourceTemplates"
    using all that by simp
  have own: "r \<in> set ?rs \<and> n \<in> listed kind (upstream r)"
    if "kind \<noteq> ResourceTemplates" "tableOf kind (snd ?run) n = Some r" for n r
    using allSettled_owner [OF that] that(1) by simp
  have tmpl: "tables (snd ?run) = tables s" if "kind = ResourceTemplates"
    using all that by simp
  let ?out = "listHandler kind upstream s"
  have sout: "snd ?out = snd ?run"
    by (simp add: out)
  have tools: "dom (toolToClientMap (snd ?out)) = (\<Union>r\<in>set ?rs. listed kind (upstream r)) \<and>
         (\<forall>n r. toolToClientMap (snd ?out) n = Some r \<longrightarrow> r \<in> set ?rs \<and> n \<in> listed kind (upstream r))"
    if "kind = Tools"
    unfolding sout using dom own that by (simp add: tableOf_def)
  have prompts: "dom (promptToClientMap (snd ?out)) = (\<Union>r\<in>set ?rs. listed kind (upstream r)) \<and>
         (\<forall>n r. promptToClientMap (snd ?out) n = Some r \<longrightarrow> r \<in> set ?rs \<and> n \<in> listed kind (upstream r))"
    if "kind = Prompts"
    unfolding sout using dom own that by (simp add: tableOf_def)
  have resources: "dom (resourceToClientMap (snd ?out)) = (\<Union>r\<in>set ?rs. listed kind (upstream r)) \<and>
         (\<forall>n r. resourceToClientMap (snd ?out) n = Some r \<longrightarrow> r \<in> set ?rs \<and> n \<in> listed kind (upstream r))"
    if "kind = Resources"
    unfolding sout using dom own that by (simp add: tableOf_def)
  have templates: "toolToClientMap (snd ?out) = toolToClientMap s \<and>
         promptToClientMap (snd ?out) = promptToClientMap s \<and>
         resourceToClientMap (snd ?out) = resourceToClientMap s"
    if "kind = ResourceTemplates"
    unfolding sout using tmpl that by (simp add: tables_def)
  have none: "fst ?out = Inr []" if "?rs = []"
    using res that by simp
  have healthy: "set (getHealthyClients s) = {r \<in> set (connectedClients s). isConnected (clientObjs s r)}"
    by (auto simp: getHealthyClients_def)
  have lst: "listed kind script =
     (case retryResult 2 script of Inr ds \<Rightarrow> entityKey kind ` set ds | Inl e \<Rightarrow> {})"
    by (simp add: listed_def)
  show ?thesis
    unfolding Let_def
    using res none tools prompts resources templates healthy lst
    by blast
qed


theorem list_handler_routing_witness:
  "fst (listHandler Tools toolsUpstream exampleProxy) =
     Inr [\<lparr>d_name = ''t1'', d_uri = [], d_description = Some ''[A] does X''\<rparr>] \<and>
   dom (toolToClientMap (snd (listHandler Tools toolsUpstream exampleProxy))) = {''t1''}"
  using list_handler_routing [of exampleProxy Tools toolsUpstream]
  by (simp add: Let_def exampleProxy_healthy toolsUpstream_result listed_def entityKey_def
      withSource_def exampleProxy_fields exampleClient_def orElse_def)

text \<open>
  Claim C3 as stated fails for resources/templates/list: with an entry left in the
  resource table and an upstream that lists one template, the handler leaves the
  resource table as it was (not cleared, and without the template) and the other two
  tables empty.
\<close>

theorem list_handler_counterexample:
  "retryResult 2 (templatesUpstream 0) =
     Inr [\<lparr>d_name = ''logs'', d_uri = ''file:///{path}'', d_description = None\<rparr>] \<and>
   getHealthyClients staleProxy = [0] \<and>
   resourceToClientMap (snd (listHandler ResourceTemplates templatesUpstream staleProxy)) =
     [''file:///old'' \<mapsto> 0] \<and>
   toolToClientMap (snd (listHandler ResourceTemplates templatesUpstream staleProxy)) = Map.empty \<and>
   promptToClientMap (snd (listHandler ResourceTemplates templatesUpstream staleProxy)) = Map.empty"
  using listHandler_templates [of templatesUpstream staleProxy]
  by (simp add: tables_def staleProxy_def exampleProxy_fields retryResult_def templatesUpstream_def
      numeral_2_eq_2 getHealthyClients_def exampleClient_def)

lemma executeWithRetry_business:
  assumes "fst (op 0 (s\<lparr>effects := effects s @ [Attempt c 0]\<rparr>)) = Inl e" "\<not> isConnectionError e"
  shows "executeWithRetry c op mr s =
     (Inl (Some e), snd (op 0 (s\<lparr>effects := effects s @ [Attempt c 0]\<rparr>)))"
proof -
  obtain out s1 where op: "op 0 (s\<lparr>effects := effects s @ [Attempt c 0]\<rparr>) = (out, s1)" by force
  with assms(1) have "out = Inl e" by simp
  with op assms(2) show ?thesis
    by (simp add: executeWithRetry_def attemptLoop_unfold noteFailure_def)
qed

lemma invalid_not_connection: "\<not> isConnectionError ''Invalid parameters''"
  by (simp add: isConnectionError_def)

lemma listTask_invalid:
  "kind \<noteq> Tools \<Longrightarrow>
   snd (listTask kind (invalidParameters 0) 0 exampleProxy) =
     demote 0 ''Invalid parameters''
       (exampleProxy\<lparr>effects := [Attempt ''A'' 0], clock := 7\<rparr>)"
  "snd (listTask Tools (invalidParameters 0) 0 exampleProxy) =
       (exampleProxy\<lparr>effects := [Attempt ''A'' 0], clock := 7\<rparr>)"
proof -
  have ex: "executeWithRetry ''A'' (request (invalidParameters 0)) None exampleProxy =
      (Inl (Some ''Invalid parameters''), exampleProxy\<lparr>effects := [Attempt ''A'' 0], clock := 7\<rparr>)"
    by (subst executeWithRetry_business [where e = "''Invalid parameters''"])
       (simp_all add: request_def invalidParameters_def invalid_not_connection exampleProxy_fields)
  show "snd (listTask kind (invalidParameters 0) 0 exampleProxy) =
     demote 0 ''Invalid parameters'' (exampleProxy\<lparr>effects := [Attempt ''A'' 0], clock := 7\<rparr>)"
    if "kind \<noteq> Tools"
    using that
    by (cases kind) (simp_all add: listTask_def Let_def exampleProxy_fields exampleClient_def ex
        onListError_def messageOf_def)
  show "snd (listTask Tools (invalidParameters 0) 0 exampleProxy) =
       (exampleProxy\<lparr>effects := [Attempt ''A'' 0], clock := 7\<rparr>)"
    by (simp add: listTask_def Let_def exampleProxy_fields exampleClient_def ex
        onListError_def messageOf_def invalid_not_connection)
qed

lemma onListError_clientObjs:
  "clientObjs (onListError kind r e s) =
     (if kind = Tools \<and> \<not> isConnectionError (messageOf e) then clientObjs s
      else (clientObjs s)(r := (clientObjs s r)\<lparr>isConnected := False, lastError := Some (messageOf e)\<rparr>))"
  by (cases kind) (simp_all add: onListError_def demote_state Let_def)

text \<open>
  Claim C4, at an input where the code departs from it. The only upstream rejects the
  list request with \<^verbatim>\<open>Invalid parameters\<close>, which is not a connection-class error.
  tools/list leaves the client connected and without \<^verbatim>\<open>lastError\<close>, as the claim says.
  prompts/list, resources/list and resources/templates/list set \<^verbatim>\<open>isConnected\<close> to
  false and \<^verbatim>\<open>lastError\<close> to the message, and the health check they trigger has the
  upstream marked unhealthy.
\<close>

theorem list_handlers_demote_on_business_error:
  "\<not> isConnectionError ''Invalid parameters'' \<and>
   isConnected (clientObjs exampleProxy 0) \<and>
   lastError (clientObjs exampleProxy 0) = None \<and>
   isConnected (clientObjs (snd (listHandler Tools invalidParameters exampleProxy)) 0) \<and>
   lastError (clientObjs (snd (listHandler Tools invalidParameters exampleProxy)) 0) = None \<and>
   \<not> isConnected (clientObjs (snd (listHandler Prompts invalidParameters exampleProxy)) 0) \<and>
   lastError (clientObjs (snd (listHandler Prompts invalidParameters exampleProxy)) 0) =
     Some ''Invalid parameters'' \<and>
   effects (snd (listHandler Prompts invalidParameters exampleProxy)) =
     [Attempt ''A'' 0, MarkUnhealthy ''A''] \<and>
   \<not> isConnected (clientObjs (snd (listHandler Resources invalidParameters exampleProxy)) 0) \<and>
   lastError (clientObjs (snd (listHandler Resources invalidParameters exampleProxy)) 0) =
     Some ''Invalid parameters'' \<and>
   \<not> isConnected (clientObjs (snd (listHandler ResourceTemplates invalidParameters exampleProxy)) 0) \<and>
   lastError (clientObjs (snd (listHandler ResourceTemplates invalidParameters exampleProxy)) 0) =
     Some ''Invalid parameters''"
proof -
  have run: "snd (listHandler kind invalidParameters exampleProxy) =
      snd (listTask kind (invalidParameters 0) 0 (clearTable kind exampleProxy))" for kind
    by (simp add: listHandler_unfold exampleProxy_healthy split: prod.splits)
  have clr: "clearTable kind exampleProxy = exampleProxy" for kind
    by (cases kind) (simp_all add: clearTable_def exampleProxy_def createServer_one)
  show ?thesis
    by (simp add: run clr listTask_invalid demote_state Let_def invalid_not_connection
        exampleProxy_fields exampleClient_def)
qed


section \<open>The claims about the tools/call handler\<close>






lemma recordSample_isHealthy [simp]: "isHealthy (recordSample m rt ok now) = isHealthy m"
  by (simp add: recordSample_def updateLoadFactor_def Let_def)








section \<open>The claim about the requests that reach an upstream\<close>

lemma outcome_simps [simp]:
  "outcome (Inl m) = Inl m" "outcome (Inr v) = Inr ()"
  by (simp_all add: outcome_def)

lemma counterAfter_outcome [simp]: "counterAfter n (outcome out) = counterAfter n out"
  by (cases out) simp_all

lemma marksUnhealthy_outcome [simp]: "marksUnhealthy n (outcome out) = marksUnhealthy n out"
  by (cases out) simp_all





lemma undisturbed_refl [simp]: "undisturbed s s"
  by (simp add: undisturbed_def)

lemma undisturbed_setTable [simp]: "undisturbed s (foldl (setTable kind r) s ds)"
proof (induction ds arbitrary: s)
  case Nil
  show ?case by simp
next
  case (Cons d ds)
  have "undisturbed s (setTable kind r s d)"
    by (simp add: undisturbed_def setTable_def split: listKind.splits)
  with Cons [of "setTable kind r s d"] show ?case
    by (simp add: undisturbed_def)
qed




lemma undisturbed_evict [simp]: "undisturbed s (s\<lparr>toolToClientMap := t\<rparr>)"
  by (simp add: undisturbed_def)






lemma getPromptHandler_routed:
  "promptToClientMap s promptName = Some r \<Longrightarrow>
   snd (getPromptHandler promptName upstream script s) = dispatchTo r (GetPrompt script) s"
  by (simp add: getPromptHandler_def dispatchTo_def)

lemma readResourceHandler_routed:
  "resourceToClientMap s uri = Some r \<Longrightarrow>
   snd (readResourceHandler uri upstream script s) = dispatchTo r (ReadResource script) s"
  by (simp add: readResourceHandler_def dispatchTo_def)

lemma listHandler_single:
  "getHealthyClients (clearTable kind s) = [r] \<Longrightarrow>
   snd (listHandler kind upstream s) = dispatchTo r (ListDispatch kind (upstream r)) (clearTable kind s)"
  by (simp add: listHandler_def dispatchTo_def Let_def split: prod.splits)

lemma rebuildMapping_single:
  "getHealthyClients (clearTable kind s) = [r] \<Longrightarrow>
   rebuildMapping kind upstream s =
     (case kind of
        Tools \<Rightarrow> dispatchTo r (RebuildTools (upstream r)) (clearTable kind s)
      | Prompts \<Rightarrow> dispatchTo r (RebuildPrompts (upstream r)) (clearTable kind s)
      | Resources \<Rightarrow> dispatchTo r (RebuildResources (upstream r)) (clearTable kind s)
      | ResourceTemplates \<Rightarrow> snd (rebuildTask kind (upstream r) r (clearTable kind s)))"
  by (cases kind) (simp_all add: rebuildMapping_def dispatchTo_def Let_def split: prod.splits)



text \<open>
  \<^verbatim>\<open>startMonitoring\<close> writes a health-check record for every client of the array, so
  after \<^verbatim>\<open>createServer\<close> every client has one; no code of the proxy deletes a record.
\<close>

lemma startMonitoring_fold:
  fixes rs :: "nat list"
  defines "step \<equiv> (\<lambda>s r. s\<lparr>healthChecks := (healthChecks s)(clientName (clientObjs s r) \<mapsto>
                \<lparr>hc_serverName = clientName (clientObjs s r), hc_isHealthy = True,
                 lastCheck = clock s, hc_errorMessage = None, hc_responseTime = None\<rparr>)\<rparr>)"
  shows "clientObjs (foldl step s rs) = clientObjs s \<and>
   (\<forall>n. healthChecks s n \<noteq> None \<longrightarrow> healthChecks (foldl step s rs) n \<noteq> None) \<and>
   (\<forall>r \<in> set rs. healthChecks (foldl step s rs) (clientName (clientObjs s r)) \<noteq> None)"
proof (induction rs arbitrary: s)
  case Nil
  show ?case by simp
next
  case (Cons r rs)
  note ih = Cons.IH [of "step s r"]
  have objs: "clientObjs (step s r) = clientObjs s"
    by (simp add: step_def)
  have here: "healthChecks (step s r) (clientName (clientObjs s r)) \<noteq> None"
    by (simp add: step_def)
  have mono: "healthChecks s n \<noteq> None \<Longrightarrow> healthChecks (step s r) n \<noteq> None" for n
    by (simp add: step_def)
  show ?case
    using ih objs here mono by auto
qed

lemma startMonitoring_healthChecks:
  "r \<in> set (connectedClients s) \<Longrightarrow> healthChecks (startMonitoring s) (clientName (clientObjs s r)) \<noteq> None"
  using startMonitoring_fold [of s "connectedClients s"]
  unfolding startMonitoring_def by blast

lemma createServer_healthChecks:
  assumes "r < length clients"
  shows "healthChecks (createServer clients now) (clientName (clients ! r)) \<noteq> None"
proof -
  define s0 :: proxy where "s0 =
       \<lparr>clientObjs = (\<lambda>r. if r < length clients then clients ! r
                          else \<lparr>clientName = [], isConnected = False, lastError = None,
                                lastErrorLogged = False\<rparr>),
        connectedClients = [0..<length clients],
        metricsManager = foldl (\<lambda>mm c. initializeServer mm (clientName c) now) newMetricsManager clients,
        healthChecks = Map.empty,
        toolToClientMap = Map.empty,
        resourceToClientMap = Map.empty,
        promptToClientMap = Map.empty,
        failureCounts = Map.empty,
        clock = now,
        effects = []\<rparr>"
  have "r \<in> set (connectedClients s0)" using assms by (simp add: s0_def)
  from startMonitoring_healthChecks [OF this]
  show ?thesis using assms by (simp add: createServer_def s0_def)
qed








end
